theory Spec2Isabelle
  imports Main "HOL-Library.AList"
begin

section \<open>Go values used by the bridge\<close>

text \<open>
  Go strings and byte slices are byte sequences; both are \<^typ>\<open>string\<close> here, so
  \<open>string(body)\<close> is the identity. An \<open>error\<close> value is either the package's sentinel,
  an error returned by the standard library (kept by its message), or an error wrapped by
  \<open>fmt.Errorf("...: %w", err)\<close>.
\<close>

datatype error =
    ErrUnsupportedRequestType
  | LibraryError string
  | Errorf string error

fun Error :: "error \<Rightarrow> string" where
  "Error ErrUnsupportedRequestType = ''unsupported request type''"
| "Error (LibraryError m) = m"
| "Error (Errorf p e) = p @ '': '' @ Error e"

text \<open>
  A call either returns or panics (a write to a nil map, a read through a nil reader).
  Nothing in the package recovers from a panic.
\<close>

datatype 'a go = Panic string | Return 'a

subsection \<open>\<open>http.Header\<close>\<close>

text \<open>
  \<open>http.Header\<close> is \<open>map[string][]string\<close>. The map is kept as an association list, whose
  order stands for the order in which a \<open>range\<close> loop visits the entries; a nil map and an
  empty map are both \<open>[]\<close> (the package only reads and ranges over a header that may be nil).
  \<open>CanonicalHeaderKey\<close> follows \<open>net/textproto.CanonicalMIMEHeaderKey\<close>: a key made of
  token bytes only gets an upper-case letter at the start and after each hyphen and
  lower-case letters elsewhere; any other key is returned unchanged.
\<close>

type_synonym Header = "(string \<times> string list) list"

definition isLower :: "char \<Rightarrow> bool" where
  "isLower c = (97 \<le> (of_char c :: nat) \<and> (of_char c :: nat) \<le> 122)"

definition isUpper :: "char \<Rightarrow> bool" where
  "isUpper c = (65 \<le> (of_char c :: nat) \<and> (of_char c :: nat) \<le> 90)"

definition isDigit :: "char \<Rightarrow> bool" where
  "isDigit c = (48 \<le> (of_char c :: nat) \<and> (of_char c :: nat) \<le> 57)"

definition validHeaderFieldByte :: "char \<Rightarrow> bool" where
  "validHeaderFieldByte c =
     (isLower c \<or> isUpper c \<or> isDigit c
      \<or> c \<in> set (''!#$%&*+-.^_|~'' @ [CHR 0x27, CHR 0x60]))"

fun canonicalize :: "bool \<Rightarrow> string \<Rightarrow> string" where
  "canonicalize upper [] = []"
| "canonicalize upper (c # cs) =
     (let c' = (if upper \<and> isLower c then char_of ((of_char c :: nat) - 32)
                else if \<not> upper \<and> isUpper c then char_of ((of_char c :: nat) + 32)
                else c)
      in c' # canonicalize (c' = CHR ''-'') cs)"

definition CanonicalHeaderKey :: "string \<Rightarrow> string" where
  "CanonicalHeaderKey s = (if list_all validHeaderFieldByte s then canonicalize True s else s)"

definition setCookieHeader :: string where
  "setCookieHeader = CanonicalHeaderKey ''set-cookie''"

definition contentTypeHeader :: string where
  "contentTypeHeader = CanonicalHeaderKey ''content-type''"

definition transferEncodingHeader :: string where
  "transferEncodingHeader = CanonicalHeaderKey ''transfer-encoding''"

definition hostHeader :: string where
  "hostHeader = CanonicalHeaderKey ''host''"

definition mimeTypeApplicationOctetStream :: string where
  "mimeTypeApplicationOctetStream = ''application/octet-stream''"

text \<open>\<open>h.Get(k)\<close>: the first value stored under the canonical form of \<open>k\<close>, else \<open>""\<close>.\<close>

definition Header_Get :: "Header \<Rightarrow> string \<Rightarrow> string" where
  "Header_Get h k =
     (case map_of h (CanonicalHeaderKey k) of
        None \<Rightarrow> ''''
      | Some [] \<Rightarrow> ''''
      | Some (v # _) \<Rightarrow> v)"

text \<open>\<open>h.Set(k, v)\<close>: the canonical key now holds exactly \<open>[v]\<close>.\<close>

definition Header_Set :: "Header \<Rightarrow> string \<Rightarrow> string \<Rightarrow> Header" where
  "Header_Set h k v = AList.update (CanonicalHeaderKey k) [v] h"

text \<open>\<open>h.Add(k, v)\<close>: \<open>v\<close> is appended to the values of the canonical key.\<close>

definition Header_Add :: "Header \<Rightarrow> string \<Rightarrow> string \<Rightarrow> Header" where
  "Header_Add h k v =
     (let ck = CanonicalHeaderKey k
      in AList.update ck ((case map_of h ck of None \<Rightarrow> [] | Some vs \<Rightarrow> vs) @ [v]) h)"

text \<open>\<open>h[k] = vs\<close>: plain map assignment, the key is taken as it is.\<close>

definition Header_assign :: "Header \<Rightarrow> string \<Rightarrow> string list \<Rightarrow> Header" where
  "Header_assign h k vs = AList.update k vs h"

section \<open>Response envelopes\<close>

text \<open>
  The three reply shapes are the \<open>events\<close> response structs of the Lambda SDK; the fallback
  shape is the package's own. They share their first fields, so each record extends the
  smaller one. A Go map field may be nil: \<open>None\<close>; reading a nil map finds nothing, writing
  to it panics.
\<close>

record leastCommonDenominatorResponse =
  StatusCode :: int
  Body :: string
  IsBase64Encoded :: bool

record apiGatewayV1Response = leastCommonDenominatorResponse +
  Headers :: "(string \<rightharpoonup> string) option"
  MultiValueHeaders :: "(string \<rightharpoonup> string list) option"

record albResponse = apiGatewayV1Response +
  StatusDescription :: string

record apiGatewayV2Response = apiGatewayV1Response +
  Cookies :: "string list"

text \<open>The zero values \<open>&albResponse{}\<close>, \<open>&apiGatewayV2Response{}\<close>, \<open>&apiGatewayV1Response{}\<close>.\<close>

definition zero_apiGatewayV1Response :: apiGatewayV1Response where
  "zero_apiGatewayV1Response =
     \<lparr>StatusCode = 0, Body = [], IsBase64Encoded = False, Headers = None,
      MultiValueHeaders = None\<rparr>"

definition zero_albResponse :: albResponse where
  "zero_albResponse =
     \<lparr>StatusCode = 0, Body = [], IsBase64Encoded = False, Headers = None,
      MultiValueHeaders = None, StatusDescription = []\<rparr>"

definition zero_apiGatewayV2Response :: apiGatewayV2Response where
  "zero_apiGatewayV2Response =
     \<lparr>StatusCode = 0, Body = [], IsBase64Encoded = False, Headers = None,
      MultiValueHeaders = None, Cookies = []\<rparr>"

definition zero_leastCommonDenominatorResponse :: leastCommonDenominatorResponse where
  "zero_leastCommonDenominatorResponse = \<lparr>StatusCode = 0, Body = [], IsBase64Encoded = False\<rparr>"

text \<open>The implementations of the interface \<open>lambdaHTTPResponse\<close>.\<close>

datatype lambdaHTTPResponse =
    ALBResponse albResponse
  | GatewayV2Response apiGatewayV2Response
  | GatewayV1Response apiGatewayV1Response

text \<open>Reading a map that may be nil.\<close>

fun mapget :: "('k \<rightharpoonup> 'v) option \<Rightarrow> 'k \<rightharpoonup> 'v" where
  "mapget None k = None"
| "mapget (Some m) k = m k"

section \<open>The capture buffer\<close>

record lambdaHTTPResponseWriter =
  header :: Header
  body :: string
  statusCode :: int
  preparedResponse :: "lambdaHTTPResponse option"

definition new_lambdaHTTPResponseWriter :: lambdaHTTPResponseWriter where
  "new_lambdaHTTPResponseWriter =
     \<lparr>header = [], body = [], statusCode = 0, preparedResponse = None\<rparr>"

text \<open>
  \<open>http.DetectContentType\<close> is the standard library's sniffer; it is a parameter
  \<open>detect\<close> of the operations that use it. The data of a write is \<open>None\<close> for a nil slice.
\<close>

definition writeHeaderLine ::
  "(string \<Rightarrow> string) \<Rightarrow> string option \<Rightarrow> lambdaHTTPResponseWriter \<Rightarrow> lambdaHTTPResponseWriter"
where
  "writeHeaderLine detect data l =
     (if statusCode l \<noteq> 0 then l
      else
        let l1 = l\<lparr>statusCode := 200\<rparr>;
            hasType = (map_of (header l1) contentTypeHeader \<noteq> None);
            hasTE = (Header_Get (header l1) transferEncodingHeader \<noteq> '''')
        in if \<not> hasType \<and> \<not> hasTE
           then (case data of
                   None \<Rightarrow> l1
                 | Some d \<Rightarrow> l1\<lparr>header := Header_Set (header l1) contentTypeHeader (detect d)\<rparr>)
           else l1)"

text \<open>\<open>Write\<close> returns \<open>(len(data), nil)\<close>: appending to a \<open>bytes.Buffer\<close> returns no error.\<close>

definition Write ::
  "(string \<Rightarrow> string) \<Rightarrow> string option \<Rightarrow> lambdaHTTPResponseWriter \<Rightarrow> lambdaHTTPResponseWriter"
where
  "Write detect data l =
     (let l1 = writeHeaderLine detect data l
      in l1\<lparr>body := body l1 @ (case data of None \<Rightarrow> [] | Some d \<Rightarrow> d)\<rparr>)"

definition WriteHeader :: "int \<Rightarrow> lambdaHTTPResponseWriter \<Rightarrow> lambdaHTTPResponseWriter" where
  "WriteHeader code l = (if statusCode l \<noteq> 0 then l else l\<lparr>statusCode := code\<rparr>)"

definition Flush :: "lambdaHTTPResponseWriter \<Rightarrow> lambdaHTTPResponseWriter" where
  "Flush l = (if statusCode l \<noteq> 0 then l else WriteHeader 200 l)"

text \<open>A handler's use of the buffer, as the sequence of calls it makes.\<close>

datatype writer_call =
    CallWriteHeader int
  | CallWrite "string option"
  | CallFlush
  | CallHeaderSet string string
  | CallHeaderAdd string string

fun call ::
  "(string \<Rightarrow> string) \<Rightarrow> writer_call \<Rightarrow> lambdaHTTPResponseWriter \<Rightarrow> lambdaHTTPResponseWriter"
where
  "call detect (CallWriteHeader code) l = WriteHeader code l"
| "call detect (CallWrite data) l = Write detect data l"
| "call detect CallFlush l = Flush l"
| "call detect (CallHeaderSet k v) l = l\<lparr>header := Header_Set (header l) k v\<rparr>"
| "call detect (CallHeaderAdd k v) l = l\<lparr>header := Header_Add (header l) k v\<rparr>"

fun calls ::
  "(string \<Rightarrow> string) \<Rightarrow> writer_call list \<Rightarrow> lambdaHTTPResponseWriter \<Rightarrow> lambdaHTTPResponseWriter"
where
  "calls detect [] l = l"
| "calls detect (c # cs) l = calls detect cs (call detect c l)"

text \<open>The calls that go through the status gate, and the bytes a call sequence writes.\<close>

fun gated :: "writer_call \<Rightarrow> bool" where
  "gated (CallWriteHeader code) = True"
| "gated (CallWrite data) = True"
| "gated CallFlush = True"
| "gated (CallHeaderSet k v) = False"
| "gated (CallHeaderAdd k v) = False"

fun written :: "writer_call list \<Rightarrow> string" where
  "written [] = []"
| "written (CallWrite (Some d) # cs) = d @ written cs"
| "written (c # cs) = written cs"

text \<open>The calls that only set a header: \<open>w.Header().Set(k, v)\<close>.\<close>

fun headerSet :: "writer_call \<Rightarrow> bool" where
  "headerSet (CallHeaderSet k v) = True"
| "headerSet c = False"

section \<open>Standard base64\<close>

text \<open>
  \<open>base64.StdEncoding\<close> of the standard library (RFC 4648, padded). The encoder takes
  three bytes as one 24-bit value and emits its four 6-bit digits; one or two remaining
  bytes give two or three digits and padding. The decoder is the non-strict one: it
  ignores the unused low bits of the last digit.
\<close>

definition encodeStd :: string where
  "encodeStd = ''ABCDEFGHIJKLMNOPQRSTUVWXYZabcdefghijklmnopqrstuvwxyz0123456789+/''"

definition enc6 :: "nat \<Rightarrow> char" where
  "enc6 n = encodeStd ! (n mod 64)"

fun EncodeToString :: "string \<Rightarrow> string" where
  "EncodeToString (a # b # c # rest) =
     (let n = (of_char a :: nat) * 65536 + of_char b * 256 + of_char c
      in [enc6 (n div 262144), enc6 (n div 4096), enc6 (n div 64), enc6 n] @ EncodeToString rest)"
| "EncodeToString [a, b] =
     (let n = (of_char a :: nat) * 65536 + of_char b * 256
      in [enc6 (n div 262144), enc6 (n div 4096), enc6 (n div 64), CHR ''=''])"
| "EncodeToString [a] =
     (let n = (of_char a :: nat) * 65536
      in [enc6 (n div 262144), enc6 (n div 4096), CHR ''='', CHR ''=''])"
| "EncodeToString [] = []"

fun index_of :: "'a list \<Rightarrow> 'a \<Rightarrow> nat option" where
  "index_of [] x = None"
| "index_of (y # ys) x = (if x = y then Some 0 else map_option Suc (index_of ys x))"

definition dec6 :: "char \<Rightarrow> nat option" where
  "dec6 c = index_of encodeStd c"

fun DecodeString :: "string \<Rightarrow> string option" where
  "DecodeString [] = Some []"
| "DecodeString (c0 # c1 # c2 # c3 # rest) =
     (case (dec6 c0, dec6 c1) of
        (Some i0, Some i1) \<Rightarrow>
          if c2 = CHR ''='' \<and> c3 = CHR ''='' \<and> rest = []
          then Some [char_of ((i0 * 64 + i1) div 16)]
          else (case dec6 c2 of
                  None \<Rightarrow> None
                | Some i2 \<Rightarrow>
                    if c3 = CHR ''='' \<and> rest = []
                    then (let n = i0 * 4096 + i1 * 64 + i2
                          in Some [char_of (n div 1024), char_of (n div 4)])
                    else (case dec6 c3 of
                            None \<Rightarrow> None
                          | Some i3 \<Rightarrow>
                              (let n = i0 * 262144 + i1 * 4096 + i2 * 64 + i3
                               in map_option
                                    (\<lambda>r. [char_of (n div 65536), char_of (n div 256), char_of n] @ r)
                                    (DecodeString rest))))
      | _ \<Rightarrow> None)"
| "DecodeString _ = None"

section \<open>Readers\<close>

text \<open>
  The request body is an \<open>io.Reader\<close>: the nil interface value, a \<open>strings.Reader\<close>, or a
  base64 decoder wrapped around another reader. \<open>ReadAll\<close> is what a handler gets when it
  reads the body to the end; a read through the nil reader is a nil dereference. The
  decoder of \<open>base64.NewDecoder\<close> skips carriage returns and line feeds.
\<close>

datatype reader = NilReader | StringsReader string | Base64Decoder reader

fun ReadAll :: "reader \<Rightarrow> (error + string) go" where
  "ReadAll NilReader = Panic ''invalid memory address or nil pointer dereference''"
| "ReadAll (StringsReader s) = Return (Inr s)"
| "ReadAll (Base64Decoder r) =
     (case ReadAll r of
        Panic m \<Rightarrow> Panic m
      | Return (Inl e) \<Rightarrow> Return (Inl e)
      | Return (Inr s) \<Rightarrow>
          (case DecodeString (filter (\<lambda>c. c \<noteq> CHR 0x0D \<and> c \<noteq> CHR 0x0A) s) of
             None \<Rightarrow> Return (Inl (LibraryError ''illegal base64 data''))
           | Some d \<Rightarrow> Return (Inr d)))"

section \<open>Transcoding the capture buffer\<close>

text \<open>\<open>strings.Join\<close>.\<close>

fun Join :: "string list \<Rightarrow> string \<Rightarrow> string" where
  "Join [] sep = []"
| "Join [v] sep = v"
| "Join (v # vs) sep = v @ sep @ Join vs sep"

text \<open>
  The body block that ends each of the four \<open>TranscodeFrom\<close> bodies: the content type is
  read with \<open>header.Get\<close>; only the octet-stream type turns base64 on, and the other
  branch leaves the flag as the envelope has it.
\<close>

definition encodeBody ::
  "lambdaHTTPResponseWriter \<Rightarrow> 'a leastCommonDenominatorResponse_scheme
     \<Rightarrow> 'a leastCommonDenominatorResponse_scheme"
where
  "encodeBody httpResponse r =
     (let contentType = Header_Get (header httpResponse) contentTypeHeader
      in if contentType = mimeTypeApplicationOctetStream
         then r\<lparr>Body := EncodeToString (body httpResponse), IsBase64Encoded := True\<rparr>
         else r\<lparr>Body := body httpResponse\<rparr>)"

definition nilMapPanic :: string where
  "nilMapPanic = ''assignment to entry in nil map''"

text \<open>The \<open>range\<close> loop of \<open>apiGatewayV2Response.TranscodeFrom\<close>.\<close>

fun v2_range :: "Header \<Rightarrow> apiGatewayV2Response \<Rightarrow> apiGatewayV2Response go" where
  "v2_range [] r = Return r"
| "v2_range ((k, v) # kvs) r =
     (if k = setCookieHeader then v2_range kvs (r\<lparr>Cookies := Cookies r @ v\<rparr>)
      else (case Headers r of
              None \<Rightarrow> Panic nilMapPanic
            | Some m \<Rightarrow> v2_range kvs (r\<lparr>Headers := Some (m(k \<mapsto> Join v '',''))\<rparr>)))"

definition V2_TranscodeFrom ::
  "apiGatewayV2Response \<Rightarrow> lambdaHTTPResponseWriter \<Rightarrow> (error option \<times> apiGatewayV2Response) go"
where
  "V2_TranscodeFrom r httpResponse =
     (case v2_range (header httpResponse)
             (r\<lparr>StatusCode := statusCode httpResponse, Headers := Some Map.empty\<rparr>) of
        Panic m \<Rightarrow> Panic m
      | Return r' \<Rightarrow> Return (None, encodeBody httpResponse r'))"

text \<open>
  The \<open>range\<close> loop that \<open>apiGatewayV1Response.TranscodeFrom\<close> and
  \<open>albResponse.TranscodeFrom\<close> both have, word for word.
\<close>

fun v1_range ::
  "Header \<Rightarrow> 'a apiGatewayV1Response_scheme \<Rightarrow> 'a apiGatewayV1Response_scheme go"
where
  "v1_range [] r = Return r"
| "v1_range ((k, v) # kvs) r =
     (if length v > 1
      then (case MultiValueHeaders r of
              None \<Rightarrow> Panic nilMapPanic
            | Some mm \<Rightarrow> v1_range kvs (r\<lparr>MultiValueHeaders := Some (mm(k \<mapsto> v))\<rparr>))
      else if length v = 1
      then (case Headers r of
              None \<Rightarrow> Panic nilMapPanic
            | Some m \<Rightarrow> v1_range kvs (r\<lparr>Headers := Some (m(k \<mapsto> v ! 0))\<rparr>))
      else v1_range kvs r)"

definition V1_TranscodeFrom ::
  "apiGatewayV1Response \<Rightarrow> lambdaHTTPResponseWriter \<Rightarrow> (error option \<times> apiGatewayV1Response) go"
where
  "V1_TranscodeFrom r httpResponse =
     (case v1_range (header httpResponse)
             (r\<lparr>StatusCode := statusCode httpResponse, Headers := Some Map.empty\<rparr>) of
        Panic m \<Rightarrow> Panic m
      | Return r' \<Rightarrow> Return (None, encodeBody httpResponse r'))"

text \<open>\<open>http.StatusText\<close> is the standard library's table, the parameter \<open>statusText\<close>.\<close>

definition ALB_TranscodeFrom ::
  "(int \<Rightarrow> string) \<Rightarrow> albResponse \<Rightarrow> lambdaHTTPResponseWriter
     \<Rightarrow> (error option \<times> albResponse) go"
where
  "ALB_TranscodeFrom statusText r httpResponse =
     (case v1_range (header httpResponse)
             (r\<lparr>StatusCode := statusCode httpResponse,
                StatusDescription := statusText (statusCode httpResponse),
                Headers := Some Map.empty\<rparr>) of
        Panic m \<Rightarrow> Panic m
      | Return r' \<Rightarrow> Return (None, encodeBody httpResponse r'))"

text \<open>The call \<open>preparedResponse.TranscodeFrom(httpResponse)\<close> through the interface.\<close>

fun prepared_TranscodeFrom ::
  "(int \<Rightarrow> string) \<Rightarrow> lambdaHTTPResponse \<Rightarrow> lambdaHTTPResponseWriter
     \<Rightarrow> (error option \<times> lambdaHTTPResponse) go"
where
  "prepared_TranscodeFrom statusText (ALBResponse r) w =
     (case ALB_TranscodeFrom statusText r w of
        Panic m \<Rightarrow> Panic m | Return (e, r') \<Rightarrow> Return (e, ALBResponse r'))"
| "prepared_TranscodeFrom statusText (GatewayV2Response r) w =
     (case V2_TranscodeFrom r w of
        Panic m \<Rightarrow> Panic m | Return (e, r') \<Rightarrow> Return (e, GatewayV2Response r'))"
| "prepared_TranscodeFrom statusText (GatewayV1Response r) w =
     (case V1_TranscodeFrom r w of
        Panic m \<Rightarrow> Panic m | Return (e, r') \<Rightarrow> Return (e, GatewayV1Response r'))"

text \<open>
  \<open>ambiguousLambdaResponse.TranscodeFrom\<close>. The value handed to \<open>json.Marshal\<close> is either
  the fallback envelope or the prepared one; \<open>json.Marshal\<close> itself is the parameter
  \<open>marshal\<close>. The result is the error returned, or the bytes stored in the receiver.
\<close>

datatype out = OutFallback leastCommonDenominatorResponse | OutPrepared lambdaHTTPResponse

definition transcodeOut ::
  "(int \<Rightarrow> string) \<Rightarrow> lambdaHTTPResponseWriter \<Rightarrow> (error + out) go"
where
  "transcodeOut statusText httpResponse =
     (case preparedResponse httpResponse of
        None \<Rightarrow>
          Return (Inr (OutFallback
            (encodeBody httpResponse
               (zero_leastCommonDenominatorResponse\<lparr>StatusCode := statusCode httpResponse\<rparr>))))
      | Some p \<Rightarrow>
          (case prepared_TranscodeFrom statusText p httpResponse of
             Panic m \<Rightarrow> Panic m
           | Return (Some err, p') \<Rightarrow> Return (Inl (Errorf ''failed to transcode response'' err))
           | Return (None, p') \<Rightarrow> Return (Inr (OutPrepared p'))))"

definition ambiguous_TranscodeFrom ::
  "(int \<Rightarrow> string) \<Rightarrow> (out \<Rightarrow> error + string) \<Rightarrow> lambdaHTTPResponseWriter
     \<Rightarrow> (error + string) go"
where
  "ambiguous_TranscodeFrom statusText marshal httpResponse =
     (case transcodeOut statusText httpResponse of
        Panic m \<Rightarrow> Panic m
      | Return (Inl err) \<Rightarrow> Return (Inl err)
      | Return (Inr out) \<Rightarrow>
          (case marshal out of
             Inl err \<Rightarrow> Return (Inl (Errorf ''failed to marshal response to JSON'' err))
           | Inr jsonBytes \<Rightarrow> Return (Inr jsonBytes)))"

section \<open>Request envelopes and their canonical form\<close>

text \<open>
  The request envelopes are the \<open>events\<close> request structs of the Lambda SDK, with the
  fields the package reads; nested fields are named by their path. A Go map is an
  association list in the order a \<open>range\<close> loop visits it.
\<close>

record lambdaRequestFields =
  rqHeaders :: "(string \<times> string) list"
  rqQueryStringParameters :: "(string \<times> string) list"
  rqBody :: string
  rqIsBase64Encoded :: bool

record apiGatewayV2Request = lambdaRequestFields +
  RawPath :: string
  RawQueryString :: string
  RequestContext_HTTP_Method :: string
  RequestContext_HTTP_SourceIP :: string

record albRequest = lambdaRequestFields +
  HTTPMethod :: string
  Path :: string
  rqMultiValueHeaders :: "(string \<times> string list) list"
  rqMultiValueQueryStringParameters :: "(string \<times> string list) list"

record apiGatewayV1Request = albRequest +
  RequestContext_Identity_SourceIP :: string

text \<open>The implementations of the interface \<open>lambdaHTTPRequest\<close>.\<close>

datatype lambdaHTTPRequest =
    ALBRequest albRequest
  | GatewayV2Request apiGatewayV2Request
  | GatewayV1Request apiGatewayV1Request

text \<open>
  The canonical request is an \<open>http.Request\<close>. The functions of \<open>net/url\<close> and
  \<open>net/http\<close> that build it are parameters: \<open>PathUnescape\<close>, \<open>Values.Encode\<close>,
  \<open>URL.String\<close>, \<open>URL.RequestURI\<close>, and the check of \<open>http.NewRequestWithContext\<close>
  (an invalid method or a URL that does not parse is an error). A request that passes
  the check holds the method (\<open>GET\<close> for the empty one), the body reader it was given, and
  no headers.
\<close>

record URL =
  url_Host :: string
  url_Path :: string
  url_RawQuery :: string

record Request =
  req_Method :: string
  req_URL :: string
  req_Header :: Header
  req_Body :: reader
  req_RemoteAddr :: string
  req_RequestURI :: string

record stdlib =
  PathUnescape :: "string \<Rightarrow> error + string"
  Values_Encode :: "(string \<times> string list) list \<Rightarrow> string"
  URL_String :: "URL \<Rightarrow> string"
  URL_RequestURI :: "URL \<Rightarrow> string"
  NewRequest_error :: "string \<Rightarrow> string \<Rightarrow> error option"
  DetectContentType :: "string \<Rightarrow> string"
  StatusText :: "int \<Rightarrow> string"
  Marshal :: "out \<Rightarrow> error + string"

definition NewRequestWithContext :: "stdlib \<Rightarrow> string \<Rightarrow> string \<Rightarrow> reader \<Rightarrow> error + Request" where
  "NewRequestWithContext lib method url body' =
     (case NewRequest_error lib method url of
        Some err \<Rightarrow> Inl err
      | None \<Rightarrow>
          Inr \<lparr>req_Method = (if method = [] then ''GET'' else method), req_URL = url,
               req_Header = [], req_Body = body', req_RemoteAddr = [], req_RequestURI = []\<rparr>)"

text \<open>\<open>url.Values.Add\<close>: the key is taken as it is.\<close>

definition Values_Add ::
  "(string \<times> string list) list \<Rightarrow> string \<Rightarrow> string \<Rightarrow> (string \<times> string list) list"
where
  "Values_Add params k v =
     AList.update k ((case map_of params k of None \<Rightarrow> [] | Some vs \<Rightarrow> vs) @ [v]) params"

text \<open>The loops over the single-value maps: \<open>params.Add(k, v)\<close> and \<open>headers.Add(k, v)\<close>.\<close>

fun addParams ::
  "(string \<times> string) list \<Rightarrow> (string \<times> string list) list \<Rightarrow> (string \<times> string list) list"
where
  "addParams [] params = params"
| "addParams ((k, v) # kvs) params = addParams kvs (Values_Add params k v)"

fun addMultiParams ::
  "(string \<times> string list) list \<Rightarrow> (string \<times> string list) list \<Rightarrow> (string \<times> string list) list"
where
  "addMultiParams [] params = params"
| "addMultiParams ((k, v) # kvs) params =
     addMultiParams kvs (fold (\<lambda>vv ps. Values_Add ps k vv) v params)"

fun addHeaders :: "(string \<times> string) list \<Rightarrow> Header \<Rightarrow> Header" where
  "addHeaders [] headers = headers"
| "addHeaders ((k, v) # kvs) headers = addHeaders kvs (Header_Add headers k v)"

text \<open>The loop over the multi-value headers of the gateway-v1 envelope: \<open>headers[k] = v\<close>.\<close>

fun assignHeaders :: "(string \<times> string list) list \<Rightarrow> Header \<Rightarrow> Header" where
  "assignHeaders [] headers = headers"
| "assignHeaders ((k, v) # kvs) headers = assignHeaders kvs (Header_assign headers k v)"

text \<open>
  The body block of each \<open>Canonize\<close>: in the base64 branch the decoder is built around the
  variable \<open>body\<close> itself, which is still the nil reader there; the envelope's body field
  is read in the other branch only.
\<close>

definition bodyReader :: "'a lambdaRequestFields_scheme \<Rightarrow> reader" where
  "bodyReader r =
     (let body' = NilReader
      in if rqIsBase64Encoded r then Base64Decoder body' else StringsReader (rqBody r))"

text \<open>The tail shared by the three \<open>Canonize\<close> bodies, from \<open>url.PathUnescape\<close> on.\<close>

definition finishCanonize ::
  "stdlib \<Rightarrow> string \<Rightarrow> string \<Rightarrow> string \<Rightarrow> Header \<Rightarrow> reader \<Rightarrow> string \<Rightarrow> error + Request"
where
  "finishCanonize lib rawPath method rawQuery headers body' remoteAddr =
     (case PathUnescape lib rawPath of
        Inl err \<Rightarrow>
          Inl (Errorf (''failed to unescape path '' @ rawPath @ '' from request'') err)
      | Inr path' \<Rightarrow>
          (let u = \<lparr>url_Host = Header_Get headers hostHeader, url_Path = path',
                     url_RawQuery = rawQuery\<rparr>
           in case NewRequestWithContext lib method (URL_String lib u) body' of
                Inl err \<Rightarrow> Inl (Errorf ''failed to canonize incoming http request'' err)
              | Inr out \<Rightarrow>
                  Inr (out\<lparr>req_RemoteAddr := remoteAddr,
                           req_RequestURI := URL_RequestURI lib u,
                           req_Header := headers\<rparr>)))"

definition V2_Canonize :: "stdlib \<Rightarrow> apiGatewayV2Request \<Rightarrow> error + Request" where
  "V2_Canonize lib r =
     (let rawQuery = (if length (RawQueryString r) = 0
                      then Values_Encode lib (addParams (rqQueryStringParameters r) [])
                      else RawQueryString r);
          headers = addHeaders (rqHeaders r) []
      in finishCanonize lib (RawPath r) (RequestContext_HTTP_Method r) rawQuery headers
           (bodyReader r) (RequestContext_HTTP_SourceIP r))"

definition V1_headers :: "apiGatewayV1Request \<Rightarrow> Header" where
  "V1_headers r = assignHeaders (rqMultiValueHeaders r) (addHeaders (rqHeaders r) [])"

definition V1_Canonize :: "stdlib \<Rightarrow> apiGatewayV1Request \<Rightarrow> error + Request" where
  "V1_Canonize lib r =
     (let params = addMultiParams (rqMultiValueQueryStringParameters r)
                     (addParams (rqQueryStringParameters r) []);
          rawQuery = Values_Encode lib params;
          headers = V1_headers r
      in finishCanonize lib (Path r) (HTTPMethod r) rawQuery headers
           (bodyReader r) (RequestContext_Identity_SourceIP r))"

text \<open>\<open>strings.SplitN(s, ",", 2)[0]\<close>: the text before the first comma, or all of \<open>s\<close>.\<close>

definition firstField :: "string \<Rightarrow> string" where
  "firstField s = takeWhile (\<lambda>c. c \<noteq> CHR '','') s"

definition sourceIP :: "albRequest \<Rightarrow> string" where
  "sourceIP r =
     (case map_of (rqMultiValueHeaders r) ''x-forwarded-for'' of
        Some (xff0 # _) \<Rightarrow> firstField xff0
      | _ \<Rightarrow> [])"

definition ALB_Canonize :: "stdlib \<Rightarrow> albRequest \<Rightarrow> error + Request" where
  "ALB_Canonize lib r =
     (let rawQuery = Values_Encode lib (addParams (rqQueryStringParameters r) []);
          headers = addHeaders (rqHeaders r) []
      in finishCanonize lib (Path r) (HTTPMethod r) rawQuery headers
           (bodyReader r) (sourceIP r))"

fun Canonize :: "stdlib \<Rightarrow> lambdaHTTPRequest \<Rightarrow> error + Request" where
  "Canonize lib (ALBRequest r) = ALB_Canonize lib r"
| "Canonize lib (GatewayV2Request r) = V2_Canonize lib r"
| "Canonize lib (GatewayV1Request r) = V1_Canonize lib r"

section \<open>Classification\<close>

text \<open>
  \<open>json.Unmarshal\<close> belongs to the standard library. A raw payload is given by what the
  decoder returns for it on each of the four targets \<open>demuxAmbiguousRequest\<close> decodes it
  into: the probe struct (or the decoder's error), and each envelope struct together with
  the error of that decoding, if any.
\<close>

record ambiguousLambdaRequest =
  RequestContext_ELB_TargetGroupArn :: string
  RequestContext_AccountID :: string
  Version :: string

record payload =
  as_ambiguous :: "error + ambiguousLambdaRequest"
  as_albRequest :: "albRequest \<times> error option"
  as_apiGatewayV2Request :: "apiGatewayV2Request \<times> error option"
  as_apiGatewayV1Request :: "apiGatewayV1Request \<times> error option"

text \<open>
  The result is the pair Go returns (a request, which may be nil, and an error, which
  may be nil) and the capture buffer, whose prepared response the function sets.
\<close>

definition demuxAmbiguousRequest ::
  "payload \<Rightarrow> lambdaHTTPResponseWriter
     \<Rightarrow> (lambdaHTTPRequest option \<times> error option) \<times> lambdaHTTPResponseWriter"
where
  "demuxAmbiguousRequest p rw =
     (case as_ambiguous p of
        Inl err \<Rightarrow> ((None, Some err), rw)
      | Inr ambiguous \<Rightarrow>
          if RequestContext_ELB_TargetGroupArn ambiguous \<noteq> []
          then ((Some (ALBRequest (fst (as_albRequest p))), snd (as_albRequest p)),
                rw\<lparr>preparedResponse := Some (ALBResponse zero_albResponse)\<rparr>)
          else if Version ambiguous = ''2.0''
          then ((Some (GatewayV2Request (fst (as_apiGatewayV2Request p))),
                 snd (as_apiGatewayV2Request p)),
                rw\<lparr>preparedResponse := Some (GatewayV2Response zero_apiGatewayV2Response)\<rparr>)
          else if RequestContext_AccountID ambiguous \<noteq> []
          then ((Some (GatewayV1Request (fst (as_apiGatewayV1Request p))),
                 snd (as_apiGatewayV1Request p)),
                rw\<lparr>preparedResponse := Some (GatewayV1Response zero_apiGatewayV1Response)\<rparr>)
          else ((None, Some ErrUnsupportedRequestType), rw))"

section \<open>The orchestrator\<close>

text \<open>
  The function \<open>lambdaHandler\<close> that \<open>ServeHTTP\<close> registers. The wrapped \<open>http.Handler\<close> is a
  function from the capture buffer and the canonical request to the buffer it leaves
  behind, or a panic. The reply is the pair \<open>(json.RawMessage, error)\<close>: \<open>Inr\<close> the bytes
  with a nil error, \<open>Inl\<close> the error.
\<close>

definition errorReply :: "stdlib \<Rightarrow> error \<Rightarrow> error + string" where
  "errorReply lib err =
     Marshal lib (OutFallback \<lparr>StatusCode = 500, Body = Error err, IsBase64Encoded = False\<rparr>)"

definition lambdaHandler ::
  "stdlib \<Rightarrow> (lambdaHTTPResponseWriter \<Rightarrow> Request \<Rightarrow> lambdaHTTPResponseWriter go)
     \<Rightarrow> payload \<Rightarrow> (error + string) go"
where
  "lambdaHandler lib handler req =
     (case demuxAmbiguousRequest req new_lambdaHTTPResponseWriter of
        ((disambiguatedRequest, Some err), w) \<Rightarrow> Return (errorReply lib err)
      | ((None, None), w) \<Rightarrow> Panic ''invalid memory address or nil pointer dereference''
      | ((Some r, None), w) \<Rightarrow>
          (case Canonize lib r of
             Inl err \<Rightarrow> Return (errorReply lib err)
           | Inr httpRequest \<Rightarrow>
               (case handler w httpRequest of
                  Panic m \<Rightarrow> Panic m
                | Return w' \<Rightarrow>
                    (case ambiguous_TranscodeFrom (StatusText lib) (Marshal lib) w' of
                       Panic m \<Rightarrow> Panic m
                     | Return (Inl err) \<Rightarrow> Return (errorReply lib err)
                     | Return (Inr bytes) \<Rightarrow> Return (Inr bytes)))))"

section \<open>Observing requests and replies\<close>

text \<open>
  The format tag of the data model is the dynamic type behind the two interfaces: which
  envelope struct the request is, and which one the prepared response is.
\<close>

datatype FormatTag = LoadBalancer | GatewayV2 | GatewayV1

fun requestTag :: "lambdaHTTPRequest \<Rightarrow> FormatTag" where
  "requestTag (ALBRequest r) = LoadBalancer"
| "requestTag (GatewayV2Request r) = GatewayV2"
| "requestTag (GatewayV1Request r) = GatewayV1"

fun responseTag :: "lambdaHTTPResponse \<Rightarrow> FormatTag" where
  "responseTag (ALBResponse r) = LoadBalancer"
| "responseTag (GatewayV2Response r) = GatewayV2"
| "responseTag (GatewayV1Response r) = GatewayV1"

text \<open>The fields every reply envelope has, read through the interface value.\<close>

fun envelopeFields :: "out \<Rightarrow> leastCommonDenominatorResponse" where
  "envelopeFields (OutFallback r) = r"
| "envelopeFields (OutPrepared (ALBResponse r)) =
     \<lparr>StatusCode = StatusCode r, Body = Body r, IsBase64Encoded = IsBase64Encoded r\<rparr>"
| "envelopeFields (OutPrepared (GatewayV2Response r)) =
     \<lparr>StatusCode = StatusCode r, Body = Body r, IsBase64Encoded = IsBase64Encoded r\<rparr>"
| "envelopeFields (OutPrepared (GatewayV1Response r)) =
     \<lparr>StatusCode = StatusCode r, Body = Body r, IsBase64Encoded = IsBase64Encoded r\<rparr>"

text \<open>
  The bytes a reply's body field carries: the field itself, or its base64 decoding when
  the binary flag is set (\<open>None\<close> if the field is not valid base64).
\<close>

definition bodyBytes :: "leastCommonDenominatorResponse \<Rightarrow> string option" where
  "bodyBytes r = (if IsBase64Encoded r then DecodeString (Body r) else Some (Body r))"

text \<open>
  The zero values of \<open>var albReq albRequest\<close>, \<open>var apiV2Req apiGatewayV2Request\<close> and
  \<open>var apiV1Req apiGatewayV1Request\<close>, which a failed decoding leaves partly filled at most.
\<close>

definition zero_albRequest :: albRequest where
  "zero_albRequest =
     \<lparr>rqHeaders = [], rqQueryStringParameters = [], rqBody = [], rqIsBase64Encoded = False,
      HTTPMethod = [], Path = [], rqMultiValueHeaders = [],
      rqMultiValueQueryStringParameters = []\<rparr>"

definition zero_apiGatewayV2Request :: apiGatewayV2Request where
  "zero_apiGatewayV2Request =
     \<lparr>rqHeaders = [], rqQueryStringParameters = [], rqBody = [], rqIsBase64Encoded = False,
      RawPath = [], RawQueryString = [], RequestContext_HTTP_Method = [],
      RequestContext_HTTP_SourceIP = []\<rparr>"

definition zero_apiGatewayV1Request :: apiGatewayV1Request where
  "zero_apiGatewayV1Request =
     \<lparr>rqHeaders = [], rqQueryStringParameters = [], rqBody = [], rqIsBase64Encoded = False,
      HTTPMethod = [], Path = [], rqMultiValueHeaders = [],
      rqMultiValueQueryStringParameters = [], RequestContext_Identity_SourceIP = []\<rparr>"

section \<open>The header names, evaluated\<close>

lemma contentTypeHeader_eq: "contentTypeHeader = ''Content-Type''"
  by code_simp

lemma setCookieHeader_eq: "setCookieHeader = ''Set-Cookie''"
  by code_simp

lemma transferEncodingHeader_eq: "transferEncodingHeader = ''Transfer-Encoding''"
  by code_simp

lemma hostHeader_eq: "hostHeader = ''Host''"
  by code_simp

lemma canonical_Content_Type: "CanonicalHeaderKey ''Content-Type'' = ''Content-Type''"
  by code_simp

lemma canonical_Transfer_Encoding: "CanonicalHeaderKey ''Transfer-Encoding'' = ''Transfer-Encoding''"
  by code_simp

lemma canonical_Host: "CanonicalHeaderKey ''Host'' = ''Host''"
  by code_simp

section \<open>Decoding undoes encoding\<close>

lemma index_of_nth: "distinct xs \<Longrightarrow> i < length xs \<Longrightarrow> index_of xs (xs ! i) = Some i"
proof (induction xs arbitrary: i)
  case Nil then show ?case by simp
next
  case (Cons y ys)
  show ?case
  proof (cases i)
    case 0 then show ?thesis by simp
  next
    case (Suc j)
    with Cons.prems have "ys ! j \<in> set ys" "y \<notin> set ys" by auto
    then have "ys ! j \<noteq> y" by auto
    with Suc Cons show ?thesis by auto
  qed
qed

lemma length_encodeStd: "length encodeStd = 64"
  by (simp add: encodeStd_def)

lemma distinct_encodeStd: "distinct encodeStd"
  by (simp add: encodeStd_def)

lemma dec6_enc6: "dec6 (enc6 n) = Some (n mod 64)"
  unfolding dec6_def enc6_def
  by (rule index_of_nth) (simp_all add: distinct_encodeStd length_encodeStd)

lemma pad_notin: "CHR ''='' \<notin> set encodeStd"
  by (simp add: encodeStd_def)

lemma enc6_not_pad: "enc6 n \<noteq> CHR ''=''"
proof -
  have "enc6 n \<in> set encodeStd"
    unfolding enc6_def by (rule nth_mem) (simp add: length_encodeStd)
  with pad_notin show ?thesis by metis
qed

lemma char_ofI: "(X::nat) mod 256 = of_char a \<Longrightarrow> char_of X = a"
  by (simp add: char_of_eq_iff take_bit_eq_mod)

lemma divmod_step:
  fixes q r d :: nat
  assumes "r < d"
  shows "(q * d + r) div d = q" and "(q * d + r) mod d = r"
  using assms by simp_all

lemma digits64:
  fixes n :: nat
  defines "b \<equiv> n div 64"
  defines "a \<equiv> n div 4096"
  defines "x \<equiv> n div 262144"
  shows "n = b * 64 + n mod 64" and "b = a * 64 + b mod 64" and "a = x * 64 + a mod 64"
proof -
  have a: "a = b div 64"
    using div_mult2_eq [of n 64 64] by (simp add: a_def b_def)
  have x: "x = a div 64"
    using div_mult2_eq [of n 4096 64] by (simp add: a_def x_def)
  show "n = b * 64 + n mod 64"
    by (simp add: b_def)
  show "b = a * 64 + b mod 64"
    by (simp add: a)
  show "a = x * 64 + a mod 64"
    by (simp add: x)
qed

lemma regroup24:
  fixes n :: nat
  assumes "n < 16777216"
  shows "(n div 262144 mod 64) * 262144 + (n div 4096 mod 64) * 4096
           + (n div 64 mod 64) * 64 + n mod 64 = n"
proof -
  define r0 where "r0 = n mod 64"
  define r1 where "r1 = n div 64 mod 64"
  define r2 where "r2 = n div 4096 mod 64"
  define x where "x = n div 262144"
  have "x < 64"
    using assms by (simp add: x_def div_less_iff_less_mult)
  then have x: "x mod 64 = x"
    by simp
  have "n = n div 64 * 64 + r0" "n div 64 = n div 4096 * 64 + r1" "n div 4096 = x * 64 + r2"
    using digits64 [of n] by (simp_all add: r0_def r1_def r2_def x_def)
  then have "x * 262144 + r2 * 4096 + r1 * 64 + r0 = n"
    by linarith
  then show ?thesis
    using x by (simp add: r0_def r1_def r2_def x_def)
qed

lemma regroup18:
  fixes n :: nat
  assumes "n < 16777216"
  shows "(n div 262144 mod 64) * 4096 + (n div 4096 mod 64) * 64 + n div 64 mod 64 = n div 64"
proof -
  define r1 where "r1 = n div 64 mod 64"
  define r2 where "r2 = n div 4096 mod 64"
  define x where "x = n div 262144"
  have "x < 64"
    using assms by (simp add: x_def div_less_iff_less_mult)
  then have x: "x mod 64 = x"
    by simp
  have "n div 64 = n div 4096 * 64 + r1" "n div 4096 = x * 64 + r2"
    using digits64 [of n] by (simp_all add: r1_def r2_def x_def)
  then have "x * 4096 + r2 * 64 + r1 = n div 64"
    by linarith
  then show ?thesis
    using x by (simp add: r1_def r2_def x_def)
qed

lemma regroup12:
  fixes n :: nat
  assumes "n < 16777216"
  shows "(n div 262144 mod 64) * 64 + n div 4096 mod 64 = n div 4096"
proof -
  define r2 where "r2 = n div 4096 mod 64"
  define x where "x = n div 262144"
  have "x < 64"
    using assms by (simp add: x_def div_less_iff_less_mult)
  then have x: "x mod 64 = x"
    by simp
  have "n div 4096 = x * 64 + r2"
    using digits64 [of n] by (simp_all add: r2_def x_def)
  then show ?thesis
    using x by (simp add: r2_def x_def)
qed

lemma bytes3:
  fixes A B C :: nat
  assumes "A < 256" "B < 256" "C < 256"
  shows "(A * 65536 + B * 256 + C) div 65536 mod 256 = A"
    and "(A * 65536 + B * 256 + C) div 256 mod 256 = B"
    and "(A * 65536 + B * 256 + C) mod 256 = C"
    and "A * 65536 + B * 256 + C < 16777216"
proof -
  have lo: "B * 256 + C < 65536"
    using assms by linarith
  have "(A * 65536 + (B * 256 + C)) div 65536 = A"
    by (rule divmod_step(1) [OF lo])
  then show "(A * 65536 + B * 256 + C) div 65536 mod 256 = A"
    using assms by (simp add: add.assoc)
  have e: "A * 65536 + B * 256 + C = (A * 256 + B) * 256 + C"
    by simp
  have "((A * 256 + B) * 256 + C) div 256 = A * 256 + B"
    by (rule divmod_step(1) [OF assms(3)])
  moreover have "(A * 256 + B) mod 256 = B"
    by (rule divmod_step(2) [OF assms(2)])
  ultimately show "(A * 65536 + B * 256 + C) div 256 mod 256 = B"
    by (simp only: e)
  have "((A * 256 + B) * 256 + C) mod 256 = C"
    by (rule divmod_step(2) [OF assms(3)])
  then show "(A * 65536 + B * 256 + C) mod 256 = C"
    by (simp only: e)
  show "A * 65536 + B * 256 + C < 16777216"
    using assms by linarith
qed

lemma decode_quad:
  fixes a b c :: char
  defines "n \<equiv> (of_char a :: nat) * 65536 + of_char b * 256 + of_char c"
  defines "m \<equiv> (n div 262144 mod 64) * 262144 + (n div 4096 mod 64) * 4096
                 + (n div 64 mod 64) * 64 + n mod 64"
  shows "[char_of (m div 65536), char_of (m div 256), char_of m] = [a, b, c]"
proof -
  have lt: "(of_char a :: nat) < 256" "(of_char b :: nat) < 256" "(of_char c :: nat) < 256"
    by simp_all
  have "n < 16777216"
    unfolding n_def by (rule bytes3(4) [OF lt])
  then have "m = n"
    unfolding m_def by (rule regroup24)
  moreover have "n div 65536 mod 256 = of_char a" "n div 256 mod 256 = of_char b"
    "n mod 256 = of_char c"
    unfolding n_def by (rule bytes3(1-3) [OF lt])+
  ultimately show ?thesis
    by (simp add: char_ofI)
qed

lemma decode_pair:
  fixes a b :: char
  defines "n \<equiv> (of_char a :: nat) * 65536 + of_char b * 256"
  defines "m \<equiv> (n div 262144 mod 64) * 4096 + (n div 4096 mod 64) * 64 + (n div 64 mod 64)"
  shows "[char_of (m div 1024), char_of (m div 4)] = [a, b]"
proof -
  have lt: "(of_char a :: nat) < 256" "(of_char b :: nat) < 256" "(0::nat) < 256"
    by simp_all
  have n: "n = of_char a * 65536 + of_char b * 256 + 0"
    by (simp add: n_def)
  have "n < 16777216"
    unfolding n by (rule bytes3(4) [OF lt])
  then have "m = n div 64"
    unfolding m_def by (rule regroup18)
  then have "m div 1024 = n div 65536" "m div 4 = n div 256"
    using div_mult2_eq [of n 64 1024] div_mult2_eq [of n 64 4] by simp_all
  moreover have "n div 65536 mod 256 = of_char a" "n div 256 mod 256 = of_char b"
    unfolding n by (rule bytes3(1-2) [OF lt])+
  ultimately show ?thesis
    by (simp add: char_ofI)
qed

lemma decode_single:
  fixes a :: char
  defines "n \<equiv> (of_char a :: nat) * 65536"
  defines "m \<equiv> (n div 262144 mod 64) * 64 + (n div 4096 mod 64)"
  shows "char_of (m div 16) = a"
proof -
  have lt: "(of_char a :: nat) < 256" "(0::nat) < 256" "(0::nat) < 256"
    by simp_all
  have n: "n = of_char a * 65536 + 0 * 256 + 0"
    by (simp add: n_def)
  have "n < 16777216"
    unfolding n by (rule bytes3(4) [OF lt])
  then have "m = n div 4096"
    unfolding m_def by (rule regroup12)
  then have "m div 16 = n div 65536"
    using div_mult2_eq [of n 4096 16] by simp
  moreover have "n div 65536 mod 256 = of_char a"
    unfolding n by (rule bytes3(1) [OF lt])
  ultimately show ?thesis
    by (simp add: char_ofI)
qed


lemma DecodeString_EncodeToString: "DecodeString (EncodeToString bs) = Some bs"
proof (induction bs rule: EncodeToString.induct)
  case (1 a b c rest)
  define n where "n = (of_char a :: nat) * 65536 + of_char b * 256 + of_char c"
  define m where "m = (n div 262144 mod 64) * 262144 + (n div 4096 mod 64) * 4096
                 + (n div 64 mod 64) * 64 + n mod 64"
  have bytes: "[char_of (m div 65536), char_of (m div 256), char_of m] = [a, b, c]"
    unfolding m_def n_def by (rule decode_quad)
  have enc: "EncodeToString (a # b # c # rest)
          = [enc6 (n div 262144), enc6 (n div 4096), enc6 (n div 64), enc6 n] @ EncodeToString rest"
    by (simp add: n_def Let_def)
  have dec: "DecodeString ([enc6 (n div 262144), enc6 (n div 4096), enc6 (n div 64), enc6 n] @ t)
          = map_option ((@) [char_of (m div 65536), char_of (m div 256), char_of m])
              (DecodeString t)" for t
    by (simp add: dec6_enc6 enc6_not_pad m_def Let_def)
  show ?case
    unfolding enc dec bytes using "1.IH" by simp
next
  case (2 a b)
  define n where "n = (of_char a :: nat) * 65536 + of_char b * 256"
  define m where "m = (n div 262144 mod 64) * 4096 + (n div 4096 mod 64) * 64 + (n div 64 mod 64)"
  have bytes: "[char_of (m div 1024), char_of (m div 4)] = [a, b]"
    unfolding m_def n_def by (rule decode_pair)
  have enc: "EncodeToString [a, b]
          = [enc6 (n div 262144), enc6 (n div 4096), enc6 (n div 64), CHR ''='']"
    by (simp add: n_def Let_def)
  have dec: "DecodeString [enc6 (n div 262144), enc6 (n div 4096), enc6 (n div 64), CHR ''='']
          = Some [char_of (m div 1024), char_of (m div 4)]"
    by (simp add: dec6_enc6 enc6_not_pad m_def Let_def)
  show ?case
    unfolding enc dec bytes by simp
next
  case (3 a)
  define n where "n = (of_char a :: nat) * 65536"
  define m where "m = (n div 262144 mod 64) * 64 + (n div 4096 mod 64)"
  have bytes: "char_of (m div 16) = a"
    unfolding m_def n_def by (rule decode_single)
  have enc: "EncodeToString [a] = [enc6 (n div 262144), enc6 (n div 4096), CHR ''='', CHR ''='']"
    by (simp add: n_def Let_def)
  have dec: "DecodeString [enc6 (n div 262144), enc6 (n div 4096), CHR ''='', CHR ''='']
          = Some [char_of (m div 16)]"
    by (simp add: dec6_enc6 m_def Let_def)
  show ?case
    unfolding enc dec bytes by simp
next
  case 4
  show ?case by simp
qed

section \<open>Properties of the capture buffer\<close>

lemma call_finalized:
  "statusCode l \<noteq> 0 \<Longrightarrow> gated c \<Longrightarrow>
     statusCode (call detect c l) = statusCode l
     \<and> header (call detect c l) = header l
     \<and> preparedResponse (call detect c l) = preparedResponse l
     \<and> body (call detect c l) = body l @ written [c]"
  by (cases c; cases "case c of CallWrite d \<Rightarrow> d | _ \<Rightarrow> None")
     (simp_all add: WriteHeader_def Write_def Flush_def writeHeaderLine_def)

lemma written_Cons: "written (c # cs) = written [c] @ written cs"
  by (cases c; cases "case c of CallWrite d \<Rightarrow> d | _ \<Rightarrow> None") simp_all

lemma calls_finalized:
  assumes "statusCode l \<noteq> 0" and "list_all gated cs"
  shows "statusCode (calls detect cs l) = statusCode l
         \<and> header (calls detect cs l) = header l
         \<and> preparedResponse (calls detect cs l) = preparedResponse l
         \<and> body (calls detect cs l) = body l @ written cs"
  using assms
proof (induction cs arbitrary: l)
  case Nil
  then show ?case by simp
next
  case (Cons c cs)
  have step: "statusCode (call detect c l) = statusCode l
              \<and> header (call detect c l) = header l
              \<and> preparedResponse (call detect c l) = preparedResponse l
              \<and> body (call detect c l) = body l @ written [c]"
    using Cons.prems call_finalized [of l c detect] by simp
  then have "statusCode (call detect c l) \<noteq> 0"
    using Cons.prems by simp
  moreover have "list_all gated cs"
    using Cons.prems by simp
  ultimately have
    "statusCode (calls detect cs (call detect c l)) = statusCode (call detect c l)
     \<and> header (calls detect cs (call detect c l)) = header (call detect c l)
     \<and> preparedResponse (calls detect cs (call detect c l)) = preparedResponse (call detect c l)
     \<and> body (calls detect cs (call detect c l)) = body (call detect c l) @ written cs"
    by (rule Cons.IH)
  with step show ?case
    using written_Cons [of c cs] by simp
qed

lemma first_call_status:
  assumes "statusCode l = 0"
  shows "statusCode (WriteHeader code l) = code"
    and "statusCode (Write detect data l) = 200"
    and "statusCode (Flush l) = 200"
  using assms
  by (simp_all add: WriteHeader_def Write_def Flush_def writeHeaderLine_def Let_def
      split: option.splits)

text \<open>
  C4. On a buffer whose status is still unset, the first call decides the status:
  \<open>WriteHeader code\<close> sets it to \<open>code\<close>, \<open>Write\<close> and \<open>Flush\<close> set it to 200. Once the
  status is finalized (no longer the unset value 0), every later sequence of
  \<open>WriteHeader\<close>, \<open>Write\<close> and \<open>Flush\<close> calls, in any order, leaves the status code and the
  whole header map (so also the content-type decision) as they are, and the body is the
  old body followed by the bytes of the later writes, in order.
\<close>

theorem finalized_status_is_write_once:
  assumes "list_all gated cs"
  shows "(statusCode l = 0 \<longrightarrow>
            statusCode (WriteHeader code l) = code
            \<and> statusCode (Write detect data l) = 200
            \<and> statusCode (Flush l) = 200)
         \<and> (statusCode l \<noteq> 0 \<longrightarrow>
            statusCode (calls detect cs l) = statusCode l
            \<and> header (calls detect cs l) = header l
            \<and> body (calls detect cs l) = body l @ written cs)"
  using assms calls_finalized [of l cs detect]
  by (simp add: first_call_status)

theorem finalized_status_is_write_once_witness:
  "statusCode (calls (\<lambda>d. ''text/plain; charset=utf-8'')
       [CallWrite (Some ''a''), CallWriteHeader 500, CallFlush, CallWrite (Some ''b'')]
       (WriteHeader 404 new_lambdaHTTPResponseWriter)) = 404
   \<and> header (calls (\<lambda>d. ''text/plain; charset=utf-8'')
       [CallWrite (Some ''a''), CallWriteHeader 500, CallFlush, CallWrite (Some ''b'')]
       (WriteHeader 404 new_lambdaHTTPResponseWriter)) = []
   \<and> body (calls (\<lambda>d. ''text/plain; charset=utf-8'')
       [CallWrite (Some ''a''), CallWriteHeader 500, CallFlush, CallWrite (Some ''b'')]
       (WriteHeader 404 new_lambdaHTTPResponseWriter)) = ''ab''
   \<and> statusCode (Write (\<lambda>d. ''text/plain; charset=utf-8'') (Some ''a'')
       new_lambdaHTTPResponseWriter) = 200"
  using finalized_status_is_write_once
    [where cs = "[CallWrite (Some ''a''), CallWriteHeader 500, CallFlush, CallWrite (Some ''b'')]"
       and l = "WriteHeader 404 new_lambdaHTTPResponseWriter"
       and detect = "\<lambda>d. ''text/plain; charset=utf-8''" and data = "Some ''a''"]
    finalized_status_is_write_once
    [where cs = "[]" and l = "new_lambdaHTTPResponseWriter"
       and detect = "\<lambda>d. ''text/plain; charset=utf-8''" and data = "Some ''a''"]
  by (simp add: WriteHeader_def new_lambdaHTTPResponseWriter_def)

section \<open>Properties of the transcoders\<close>

lemma encodeBody_fields:
  "IsBase64Encoded (encodeBody w r) =
     (Header_Get (header w) contentTypeHeader = mimeTypeApplicationOctetStream \<or> IsBase64Encoded r)"
  "Body (encodeBody w r) =
     (if Header_Get (header w) contentTypeHeader = mimeTypeApplicationOctetStream
      then EncodeToString (body w) else body w)"
  "StatusCode (encodeBody w r) = StatusCode r"
  by (simp_all add: encodeBody_def Let_def)

lemma encodeBody_more:
  "Headers (encodeBody w r) = Headers r"
  "MultiValueHeaders (encodeBody w r) = MultiValueHeaders r"
  by (simp_all add: encodeBody_def Let_def)

lemma encodeBody_cookies: "Cookies (encodeBody w r) = Cookies r"
  by (simp add: encodeBody_def Let_def)

lemma v1_range_keeps:
  "v1_range h r = Return r' \<Longrightarrow>
     StatusCode r' = StatusCode r \<and> Body r' = Body r \<and> IsBase64Encoded r' = IsBase64Encoded r
     \<and> apiGatewayV1Response.more r' = apiGatewayV1Response.more r"
proof (induction h r rule: v1_range.induct)
  case (1 r)
  then show ?case by simp
next
  case (2 k v kvs r)
  then show ?case
    by (auto split: if_splits option.splits)
qed

lemma v2_range_keeps:
  "v2_range h r = Return r' \<Longrightarrow>
     StatusCode r' = StatusCode r \<and> Body r' = Body r \<and> IsBase64Encoded r' = IsBase64Encoded r
     \<and> MultiValueHeaders r' = MultiValueHeaders r"
proof (induction h r rule: v2_range.induct)
  case (1 r)
  then show ?case by simp
next
  case (2 k v kvs r)
  then show ?case
    by (auto split: if_splits option.splits)
qed

lemma v2_range_returns:
  "Headers r \<noteq> None \<Longrightarrow> \<exists>r'. v2_range h r = Return r' \<and> Headers r' \<noteq> None"
proof (induction h r rule: v2_range.induct)
  case (1 r)
  then show ?case by simp
next
  case (2 k v kvs r)
  then show ?case
    by (auto split: if_splits option.splits)
qed

lemma v2_range_places:
  assumes "distinct (map fst h)" and "Headers r = Some m"
  shows "\<exists>r'. v2_range h r = Return r'
           \<and> Cookies r' = Cookies r @ (case map_of h setCookieHeader of None \<Rightarrow> [] | Some vs \<Rightarrow> vs)
           \<and> (\<forall>k. mapget (Headers r') k =
                 (if k \<noteq> setCookieHeader \<and> map_of h k \<noteq> None
                  then map_option (\<lambda>v. Join v '','') (map_of h k) else m k))"
  using assms
proof (induction h arbitrary: r m)
  case Nil
  then show ?case by simp
next
  case (Cons kv kvs)
  obtain k v where kv: "kv = (k, v)" by (cases kv)
  from Cons.prems kv have d: "distinct (map fst kvs)" and nk: "map_of kvs k = None"
    by (auto simp: map_of_eq_None_iff)
  show ?case
  proof (cases "k = setCookieHeader")
    case True
    have "Headers (r\<lparr>Cookies := Cookies r @ v\<rparr>) = Some m"
      using Cons.prems by simp
    from Cons.IH [OF d this] obtain r' where
      "v2_range kvs (r\<lparr>Cookies := Cookies r @ v\<rparr>) = Return r'"
      "Cookies r' = Cookies (r\<lparr>Cookies := Cookies r @ v\<rparr>)
          @ (case map_of kvs setCookieHeader of None \<Rightarrow> [] | Some vs \<Rightarrow> vs)"
      "\<forall>k. mapget (Headers r') k =
          (if k \<noteq> setCookieHeader \<and> map_of kvs k \<noteq> None
           then map_option (\<lambda>v. Join v '','') (map_of kvs k) else m k)"
      by blast
    then show ?thesis
      using True kv nk by auto
  next
    case False
    have "Headers (r\<lparr>Headers := Some (m(k \<mapsto> Join v '',''))\<rparr>) = Some (m(k \<mapsto> Join v '',''))"
      by simp
    from Cons.IH [OF d this] obtain r' where
      "v2_range kvs (r\<lparr>Headers := Some (m(k \<mapsto> Join v '',''))\<rparr>) = Return r'"
      "Cookies r' = Cookies (r\<lparr>Headers := Some (m(k \<mapsto> Join v '',''))\<rparr>)
          @ (case map_of kvs setCookieHeader of None \<Rightarrow> [] | Some vs \<Rightarrow> vs)"
      "\<forall>k'. mapget (Headers r') k' =
          (if k' \<noteq> setCookieHeader \<and> map_of kvs k' \<noteq> None
           then map_option (\<lambda>v. Join v '','') (map_of kvs k') else (m(k \<mapsto> Join v '','')) k')"
      by blast
    then show ?thesis
      using False kv nk Cons.prems(2) by auto
  qed
qed

lemma v1_range_places:
  assumes "distinct (map fst h)" and "v1_range h r = Return r'"
  shows "mapget (Headers r') k =
           (case map_of h k of Some [x] \<Rightarrow> Some x | _ \<Rightarrow> mapget (Headers r) k)
         \<and> mapget (MultiValueHeaders r') k =
           (case map_of h k of Some (x # y # zs) \<Rightarrow> Some (x # y # zs)
            | _ \<Rightarrow> mapget (MultiValueHeaders r) k)"
  using assms
proof (induction h r rule: v1_range.induct)
  case (1 r)
  then show ?case by simp
next
  case (2 k' v kvs r)
  from "2.prems" have d: "distinct (map fst kvs)" and nk: "map_of kvs k' = None"
    by (auto simp: map_of_eq_None_iff)
  consider (multi) "length v > 1" | (one) "length v = 1" | (none) "v = []"
    by (cases v) auto
  then show ?case
  proof cases
    case multi
    then obtain x y zs where v: "v = x # y # zs"
      by (cases v; cases "tl v") auto
    from multi "2.prems" obtain mm where mm: "MultiValueHeaders r = Some mm"
      and run: "v1_range kvs (r\<lparr>MultiValueHeaders := Some (mm(k' \<mapsto> v))\<rparr>) = Return r'"
      by (auto split: option.splits)
    from "2.IH"(1) [OF multi mm d run] show ?thesis
      using nk v mm by (cases "k = k'") (auto split: option.splits list.splits)
  next
    case one
    then obtain x where v: "v = [x]"
      by (cases v) auto
    from one "2.prems" obtain m where m: "Headers r = Some m"
      and run: "v1_range kvs (r\<lparr>Headers := Some (m(k' \<mapsto> v ! 0))\<rparr>) = Return r'"
      by (auto split: option.splits)
    have a: "\<not> 1 < length v" using one by simp
    from "2.IH"(2) [OF a one m d run] show ?thesis
      using nk v m by (cases "k = k'") (auto split: option.splits list.splits)
  next
    case none
    then have a: "\<not> 1 < length v" "length v \<noteq> 1" by simp_all
    from none "2.prems" have run: "v1_range kvs r = Return r'"
      by simp
    from "2.IH"(3) [OF a d run] show ?thesis
      using nk none by (cases "k = k'") (auto split: option.splits list.splits)
  qed
qed

lemma v1_range_nil_map_panics:
  assumes "(k, v) \<in> set h" and "length v > 1"
    and "MultiValueHeaders r = None" and "Headers r \<noteq> None"
  shows "v1_range h r = Panic nilMapPanic"
  using assms
proof (induction h r rule: v1_range.induct)
  case (1 r)
  then show ?case by simp
next
  case (2 k' v' kvs r)
  then show ?case
    by (auto split: option.splits)
qed

text \<open>
  C6. For the three format transcoders, started on the zero envelope the package
  prepares, and for the fallback envelope built when no response was prepared: the emitted
  \<open>IsBase64Encoded\<close> flag is true exactly when \<open>header.Get("Content-Type")\<close> of the capture
  buffer is the octet-stream type; the body field is then the standard base64 encoding of
  the accumulated body, and otherwise the accumulated bytes as they are. The gateway-v2
  transcoder and the fallback always return; the other two are covered whenever they return.
\<close>

theorem binary_flag_iff_octet_stream:
  fixes w :: lambdaHTTPResponseWriter
  defines "binary \<equiv> (Header_Get (header w) contentTypeHeader = mimeTypeApplicationOctetStream)"
  defines "text \<equiv> (if binary then EncodeToString (body w) else body w)"
  shows "(\<exists>r. V2_TranscodeFrom zero_apiGatewayV2Response w = Return (None, r)
              \<and> IsBase64Encoded r = binary \<and> Body r = text)
         \<and> (\<forall>e r. V1_TranscodeFrom zero_apiGatewayV1Response w = Return (e, r)
              \<longrightarrow> IsBase64Encoded r = binary \<and> Body r = text)
         \<and> (\<forall>e r. ALB_TranscodeFrom statusText zero_albResponse w = Return (e, r)
              \<longrightarrow> IsBase64Encoded r = binary \<and> Body r = text)
         \<and> (\<exists>r. transcodeOut statusText (w\<lparr>preparedResponse := None\<rparr>) = Return (Inr (OutFallback r))
              \<and> IsBase64Encoded r = binary \<and> Body r = text)"
proof -
  have "Headers (zero_apiGatewayV2Response\<lparr>StatusCode := statusCode w, Headers := Some Map.empty\<rparr>) \<noteq> None"
    by simp
  then obtain r' where r': "v2_range (header w)
      (zero_apiGatewayV2Response\<lparr>StatusCode := statusCode w, Headers := Some Map.empty\<rparr>) = Return r'"
    using v2_range_returns by blast
  then have "IsBase64Encoded r' = False"
    using v2_range_keeps [OF r'] by (simp add: zero_apiGatewayV2Response_def)
  then have v2: "\<exists>r. V2_TranscodeFrom zero_apiGatewayV2Response w = Return (None, r)
              \<and> IsBase64Encoded r = binary \<and> Body r = text"
    using r' by (simp add: V2_TranscodeFrom_def encodeBody_fields binary_def text_def)
  have v1: "IsBase64Encoded r = binary \<and> Body r = text"
    if a: "V1_TranscodeFrom zero_apiGatewayV1Response w = Return (e, r)" for e r
  proof -
    from a obtain r' where r': "v1_range (header w)
        (zero_apiGatewayV1Response\<lparr>StatusCode := statusCode w, Headers := Some Map.empty\<rparr>) = Return r'"
      and r: "r = encodeBody w r'"
      by (auto simp: V1_TranscodeFrom_def split: go.splits)
    have "IsBase64Encoded r' = False"
      using v1_range_keeps [OF r'] by (simp add: zero_apiGatewayV1Response_def)
    then show ?thesis
      using r by (simp add: encodeBody_fields binary_def text_def)
  qed
  have alb: "IsBase64Encoded r = binary \<and> Body r = text"
    if a: "ALB_TranscodeFrom statusText zero_albResponse w = Return (e, r)" for e r
  proof -
    from a obtain r' where r': "v1_range (header w)
        (zero_albResponse\<lparr>StatusCode := statusCode w,
           StatusDescription := statusText (statusCode w), Headers := Some Map.empty\<rparr>) = Return r'"
      and r: "r = encodeBody w r'"
      by (auto simp: ALB_TranscodeFrom_def split: go.splits)
    have "IsBase64Encoded r' = False"
      using v1_range_keeps [OF r'] by (simp add: zero_albResponse_def)
    then show ?thesis
      using r by (simp add: encodeBody_fields binary_def text_def)
  qed
  have fb: "\<exists>r. transcodeOut statusText (w\<lparr>preparedResponse := None\<rparr>) = Return (Inr (OutFallback r))
              \<and> IsBase64Encoded r = binary \<and> Body r = text"
    by (simp add: transcodeOut_def encodeBody_fields binary_def text_def
        zero_leastCommonDenominatorResponse_def Header_Get_def)
  from v2 v1 alb fb show ?thesis
    by blast
qed

theorem binary_flag_iff_octet_stream_witness:
  "V1_TranscodeFrom zero_apiGatewayV1Response
     \<lparr>header = [(''Content-Type'', [''application/octet-stream''])], body = ''hi'',
      statusCode = 200, preparedResponse = None\<rparr>
   = Return (None, \<lparr>StatusCode = 200, Body = ''aGk='', IsBase64Encoded = True,
        Headers = Some [''Content-Type'' \<mapsto> ''application/octet-stream''],
        MultiValueHeaders = None\<rparr>)
   \<and> ALB_TranscodeFrom (\<lambda>c. ''OK'') zero_albResponse
     \<lparr>header = [(''Content-Type'', [''text/html''])], body = ''hi'',
      statusCode = 200, preparedResponse = None\<rparr>
   = Return (None, \<lparr>StatusCode = 200, Body = ''hi'', IsBase64Encoded = False,
        Headers = Some [''Content-Type'' \<mapsto> ''text/html''],
        MultiValueHeaders = None, StatusDescription = ''OK''\<rparr>)"
  using binary_flag_iff_octet_stream
    [of "\<lparr>header = [(''Content-Type'', [''application/octet-stream''])], body = ''hi'',
          statusCode = 200, preparedResponse = None\<rparr>" "\<lambda>c. ''OK''"]
    binary_flag_iff_octet_stream
    [of "\<lparr>header = [(''Content-Type'', [''text/html''])], body = ''hi'',
          statusCode = 200, preparedResponse = None\<rparr>" "\<lambda>c. ''OK''"]
  by (simp add: V1_TranscodeFrom_def ALB_TranscodeFrom_def zero_apiGatewayV1Response_def
      zero_albResponse_def encodeBody_def contentTypeHeader_eq Header_Get_def
      mimeTypeApplicationOctetStream_def canonical_Content_Type enc6_def encodeStd_def)

text \<open>
  C5 at a header with two values, on the zero envelopes the package transcodes into: the
  multi-value map of the envelope is nil (only \<open>Headers\<close> is made), so the assignment
  \<open>r.MultiValueHeaders[k] = v\<close> panics, for the gateway-v1 and the load-balancer format.
\<close>

theorem multi_value_header_write_panics:
  "V1_TranscodeFrom zero_apiGatewayV1Response
     \<lparr>header = [(''X-A'', [''1'', ''2''])], body = [], statusCode = 200,
      preparedResponse = None\<rparr> = Panic nilMapPanic
   \<and> ALB_TranscodeFrom statusText zero_albResponse
     \<lparr>header = [(''X-A'', [''1'', ''2''])], body = [], statusCode = 200,
      preparedResponse = None\<rparr> = Panic nilMapPanic"
  by (simp add: V1_TranscodeFrom_def ALB_TranscodeFrom_def zero_apiGatewayV1Response_def
      zero_albResponse_def)

text \<open>
  C10. The capture buffer's header is a Go map, so its keys are distinct. The gateway-v2
  transcoder, on the zero envelope, always returns: the cookie list is the values stored
  under \<open>Set-Cookie\<close>, that key is absent from the headers map, every other key holds its
  values joined by a comma, and the multi-value map stays nil. The gateway-v1 and
  load-balancer transcoders, whenever they return, have placed every key by one rule that
  never looks at the name: a single value in the headers map, two or more values in the
  multi-value map; \<open>Set-Cookie\<close> is placed like any other key.
\<close>

theorem only_gateway_v2_extracts_cookies:
  assumes "distinct (map fst (header w))"
  shows "(\<exists>r'. V2_TranscodeFrom zero_apiGatewayV2Response w = Return (None, r')
            \<and> Cookies r' = (case map_of (header w) setCookieHeader of None \<Rightarrow> [] | Some vs \<Rightarrow> vs)
            \<and> (\<forall>k. mapget (Headers r') k =
                  (if k = setCookieHeader then None
                   else map_option (\<lambda>v. Join v '','') (map_of (header w) k)))
            \<and> MultiValueHeaders r' = None)
         \<and> (\<forall>r e r' k. V1_TranscodeFrom r w = Return (e, r') \<longrightarrow>
               mapget (Headers r') k =
                 (case map_of (header w) k of Some [x] \<Rightarrow> Some x | _ \<Rightarrow> None)
               \<and> mapget (MultiValueHeaders r') k =
                 (case map_of (header w) k of Some (x # y # zs) \<Rightarrow> Some (x # y # zs)
                  | _ \<Rightarrow> mapget (MultiValueHeaders r) k))
         \<and> (\<forall>r e r' k. ALB_TranscodeFrom statusText r w = Return (e, r') \<longrightarrow>
               mapget (Headers r') k =
                 (case map_of (header w) k of Some [x] \<Rightarrow> Some x | _ \<Rightarrow> None)
               \<and> mapget (MultiValueHeaders r') k =
                 (case map_of (header w) k of Some (x # y # zs) \<Rightarrow> Some (x # y # zs)
                  | _ \<Rightarrow> mapget (MultiValueHeaders r) k))"
proof -
  let ?r0 = "zero_apiGatewayV2Response\<lparr>StatusCode := statusCode w, Headers := Some Map.empty\<rparr>"
  have "Headers ?r0 = Some Map.empty"
    by simp
  from v2_range_places [OF assms this] obtain r' where
    run: "v2_range (header w) ?r0 = Return r'"
    and cookies: "Cookies r' = Cookies ?r0
        @ (case map_of (header w) setCookieHeader of None \<Rightarrow> [] | Some vs \<Rightarrow> vs)"
    and hdrs: "\<forall>k. mapget (Headers r') k =
        (if k \<noteq> setCookieHeader \<and> map_of (header w) k \<noteq> None
         then map_option (\<lambda>v. Join v '','') (map_of (header w) k) else Map.empty k)"
    by blast
  have multi: "MultiValueHeaders r' = None"
    using v2_range_keeps [OF run] by (simp add: zero_apiGatewayV2Response_def)
  have v2: "\<exists>r'. V2_TranscodeFrom zero_apiGatewayV2Response w = Return (None, r')
            \<and> Cookies r' = (case map_of (header w) setCookieHeader of None \<Rightarrow> [] | Some vs \<Rightarrow> vs)
            \<and> (\<forall>k. mapget (Headers r') k =
                  (if k = setCookieHeader then None
                   else map_option (\<lambda>v. Join v '','') (map_of (header w) k)))
            \<and> MultiValueHeaders r' = None"
    using run cookies hdrs multi
    by (auto simp: V2_TranscodeFrom_def encodeBody_more encodeBody_cookies
        zero_apiGatewayV2Response_def)
  have v1: "mapget (Headers r') k =
              (case map_of (header w) k of Some [x] \<Rightarrow> Some x | _ \<Rightarrow> None)
            \<and> mapget (MultiValueHeaders r') k =
              (case map_of (header w) k of Some (x # y # zs) \<Rightarrow> Some (x # y # zs)
               | _ \<Rightarrow> mapget (MultiValueHeaders r) k)"
    if a: "V1_TranscodeFrom r w = Return (e, r')" for r e r' k
  proof -
    from a obtain r1 where run1: "v1_range (header w)
        (r\<lparr>StatusCode := statusCode w, Headers := Some Map.empty\<rparr>) = Return r1"
      and r': "r' = encodeBody w r1"
      by (auto simp: V1_TranscodeFrom_def split: go.splits)
    from v1_range_places [OF assms run1, of k] show ?thesis
      using r' by (simp add: encodeBody_more split: option.splits list.splits)
  qed
  have alb: "mapget (Headers r') k =
              (case map_of (header w) k of Some [x] \<Rightarrow> Some x | _ \<Rightarrow> None)
            \<and> mapget (MultiValueHeaders r') k =
              (case map_of (header w) k of Some (x # y # zs) \<Rightarrow> Some (x # y # zs)
               | _ \<Rightarrow> mapget (MultiValueHeaders r) k)"
    if a: "ALB_TranscodeFrom statusText r w = Return (e, r')" for r e r' k
  proof -
    from a obtain r1 where run1: "v1_range (header w)
        (r\<lparr>StatusCode := statusCode w, StatusDescription := statusText (statusCode w),
           Headers := Some Map.empty\<rparr>) = Return r1"
      and r': "r' = encodeBody w r1"
      by (auto simp: ALB_TranscodeFrom_def split: go.splits)
    from v1_range_places [OF assms run1, of k] show ?thesis
      using r' by (simp add: encodeBody_more split: option.splits list.splits)
  qed
  from v2 v1 alb show ?thesis
    by blast
qed

theorem only_gateway_v2_extracts_cookies_witness:
  "V2_TranscodeFrom zero_apiGatewayV2Response
     \<lparr>header = [(''Set-Cookie'', [''a=1'', ''b=2'']), (''X-A'', [''1'', ''2''])], body = [],
      statusCode = 200, preparedResponse = None\<rparr>
   = Return (None, \<lparr>StatusCode = 200, Body = [], IsBase64Encoded = False,
        Headers = Some [''X-A'' \<mapsto> ''1,2''], MultiValueHeaders = None,
        Cookies = [''a=1'', ''b=2'']\<rparr>)
   \<and> V1_TranscodeFrom zero_apiGatewayV1Response
     \<lparr>header = [(''Set-Cookie'', [''a=1'']), (''X-A'', [''1''])], body = [],
      statusCode = 200, preparedResponse = None\<rparr>
   = Return (None, \<lparr>StatusCode = 200, Body = [], IsBase64Encoded = False,
        Headers = Some [''Set-Cookie'' \<mapsto> ''a=1'', ''X-A'' \<mapsto> ''1''],
        MultiValueHeaders = None\<rparr>)
   \<and> ALB_TranscodeFrom (\<lambda>c. ''OK'') (zero_albResponse\<lparr>MultiValueHeaders := Some Map.empty\<rparr>)
     \<lparr>header = [(''Set-Cookie'', [''a=1'', ''b=2''])], body = [],
      statusCode = 200, preparedResponse = None\<rparr>
   = Return (None, \<lparr>StatusCode = 200, Body = [], IsBase64Encoded = False,
        Headers = Some Map.empty,
        MultiValueHeaders = Some [''Set-Cookie'' \<mapsto> [''a=1'', ''b=2'']],
        StatusDescription = ''OK''\<rparr>)"
  using only_gateway_v2_extracts_cookies
    [of "\<lparr>header = [(''Set-Cookie'', [''a=1'', ''b=2'']), (''X-A'', [''1'', ''2''])], body = [],
          statusCode = 200, preparedResponse = None\<rparr>" "\<lambda>c. ''OK''"]
    only_gateway_v2_extracts_cookies
    [of "\<lparr>header = [(''Set-Cookie'', [''a=1'']), (''X-A'', [''1''])], body = [],
          statusCode = 200, preparedResponse = None\<rparr>" "\<lambda>c. ''OK''"]
    only_gateway_v2_extracts_cookies
    [of "\<lparr>header = [(''Set-Cookie'', [''a=1'', ''b=2''])], body = [],
          statusCode = 200, preparedResponse = None\<rparr>" "\<lambda>c. ''OK''"]
  by (simp add: V2_TranscodeFrom_def V1_TranscodeFrom_def ALB_TranscodeFrom_def
      zero_apiGatewayV2Response_def zero_apiGatewayV1Response_def zero_albResponse_def
      encodeBody_def contentTypeHeader_eq setCookieHeader_eq Header_Get_def
      mimeTypeApplicationOctetStream_def canonical_Content_Type)

section \<open>Properties of canonicalization\<close>

lemma finishCanonize_fields:
  assumes "finishCanonize lib rawPath method rawQuery headers body' remoteAddr = Inr q"
  shows "req_Body q = body'" and "req_Header q = headers" and "req_RemoteAddr q = remoteAddr"
  using assms
  by (auto simp: finishCanonize_def NewRequestWithContext_def Let_def
      split: sum.splits option.splits)

lemma Canonize_Body:
  "V2_Canonize lib r2 = Inr q \<Longrightarrow> req_Body q = bodyReader r2"
  "V1_Canonize lib r1 = Inr q \<Longrightarrow> req_Body q = bodyReader r1"
  "ALB_Canonize lib ra = Inr q \<Longrightarrow> req_Body q = bodyReader ra"
  by (auto simp: V2_Canonize_def V1_Canonize_def ALB_Canonize_def Let_def
      dest: finishCanonize_fields(1))

lemma Canonize_RemoteAddr:
  "V2_Canonize lib r2 = Inr q \<Longrightarrow> req_RemoteAddr q = RequestContext_HTTP_SourceIP r2"
  "V1_Canonize lib r1 = Inr q \<Longrightarrow> req_RemoteAddr q = RequestContext_Identity_SourceIP r1"
  "ALB_Canonize lib ra = Inr q \<Longrightarrow> req_RemoteAddr q = sourceIP ra"
  by (auto simp: V2_Canonize_def V1_Canonize_def ALB_Canonize_def Let_def
      dest: finishCanonize_fields(3))

lemma Canonize_Header:
  "V2_Canonize lib r2 = Inr q \<Longrightarrow> req_Header q = addHeaders (rqHeaders r2) []"
  "V1_Canonize lib r1 = Inr q \<Longrightarrow> req_Header q = V1_headers r1"
  "ALB_Canonize lib ra = Inr q \<Longrightarrow> req_Header q = addHeaders (rqHeaders ra) []"
  by (auto simp: V2_Canonize_def V1_Canonize_def ALB_Canonize_def Let_def
      dest: finishCanonize_fields(2))

lemma plain_body_reader_reads_body:
  assumes "\<not> rqIsBase64Encoded r"
  shows "ReadAll (bodyReader r) = Return (Inr (rqBody r))"
  using assms by (simp add: bodyReader_def)

lemma assignHeaders_lookup:
  assumes "distinct (map fst kvs)"
  shows "map_of (assignHeaders kvs h) k
           = (case map_of kvs k of Some v \<Rightarrow> Some v | None \<Rightarrow> map_of h k)"
  using assms
proof (induction kvs arbitrary: h)
  case Nil
  then show ?case by simp
next
  case (Cons kv kvs)
  obtain k' v' where kv: "kv = (k', v')" by (cases kv)
  from Cons.prems kv have d: "distinct (map fst kvs)" and nk: "map_of kvs k' = None"
    by (auto simp: map_of_eq_None_iff)
  show ?case
    using Cons.IH [OF d, of "Header_assign h k' v'"] nk kv
    by (auto simp: Header_assign_def update_conv' split: option.splits)
qed

lemma V1_headers_raw_key:
  assumes "distinct (map fst (rqMultiValueHeaders r))"
    and "map_of (rqMultiValueHeaders r) k = Some vs"
  shows "map_of (V1_headers r) k = Some vs"
  using assms by (simp add: V1_headers_def assignHeaders_lookup)

text \<open>
  C2 at an envelope whose base64 flag is set and whose body is \<open>aGk=\<close> (the encoding of
  \<open>hi\<close>): in each of the three formats, whenever canonicalization succeeds, the body
  reader is a base64 decoder around the nil reader, so reading it panics and the body
  field is never decoded. A decoder around a reader of the body field would give \<open>hi\<close>.
\<close>

theorem base64_body_reader_wraps_nil:
  "(case V2_Canonize lib (r2\<lparr>rqIsBase64Encoded := True, rqBody := ''aGk=''\<rparr>) of
      Inl e \<Rightarrow> True
    | Inr q \<Rightarrow> req_Body q = Base64Decoder NilReader
        \<and> ReadAll (req_Body q) = Panic ''invalid memory address or nil pointer dereference'')
   \<and> (case V1_Canonize lib (r1\<lparr>rqIsBase64Encoded := True, rqBody := ''aGk=''\<rparr>) of
      Inl e \<Rightarrow> True
    | Inr q \<Rightarrow> req_Body q = Base64Decoder NilReader
        \<and> ReadAll (req_Body q) = Panic ''invalid memory address or nil pointer dereference'')
   \<and> (case ALB_Canonize lib (ra\<lparr>rqIsBase64Encoded := True, rqBody := ''aGk=''\<rparr>) of
      Inl e \<Rightarrow> True
    | Inr q \<Rightarrow> req_Body q = Base64Decoder NilReader
        \<and> ReadAll (req_Body q) = Panic ''invalid memory address or nil pointer dereference'')
   \<and> ReadAll (Base64Decoder (StringsReader ''aGk='')) = Return (Inr ''hi'')"
proof -
  have a: "ReadAll (Base64Decoder (StringsReader ''aGk='')) = Return (Inr ''hi'')"
    by (simp add: dec6_def encodeStd_def char_of_eq_iff take_bit_eq_mod)
  show ?thesis
    using a by (auto simp: bodyReader_def dest: Canonize_Body split: sum.splits)
qed

lemma canonical_x_a: "CanonicalHeaderKey ''x-a'' = ''X-A''"
  by code_simp

text \<open>
  C8 at a gateway-v1 envelope that has the key \<open>x-a\<close> in both header maps: the single
  value is added under the canonical key \<open>X-A\<close>, the multi-value entry is assigned under
  the key as given, so both entries are in the canonical header and \<open>Header.Get\<close> still
  answers with the single value.
\<close>

theorem multi_value_header_does_not_replace:
  "V1_headers \<lparr>rqHeaders = [(''x-a'', ''1'')], rqQueryStringParameters = [], rqBody = [],
      rqIsBase64Encoded = False, HTTPMethod = ''GET'', Path = ''/'',
      rqMultiValueHeaders = [(''x-a'', [''2'', ''3''])],
      rqMultiValueQueryStringParameters = [], RequestContext_Identity_SourceIP = []\<rparr>
   = [(''X-A'', [''1'']), (''x-a'', [''2'', ''3''])]
   \<and> Header_Get [(''X-A'', [''1'']), (''x-a'', [''2'', ''3''])] ''x-a'' = ''1''"
  by (simp add: V1_headers_def Header_Add_def Header_assign_def Header_Get_def canonical_x_a)

lemma canonical_xff: "CanonicalHeaderKey ''x-forwarded-for'' = ''X-Forwarded-For''"
  by code_simp

lemma canonical_XFF: "CanonicalHeaderKey ''X-Forwarded-For'' = ''X-Forwarded-For''"
  by code_simp

text \<open>
  C9 at a load-balancer envelope that carries its forwarded-for header in the single-value
  map: \<open>sourceIP\<close> reads the multi-value map only, so the remote address is empty although
  the header is in the envelope and in the canonical request. With the header in the
  multi-value map, the first comma-separated address is taken.
\<close>

theorem forwarded_for_in_headers_is_not_read:
  "sourceIP \<lparr>rqHeaders = [(''x-forwarded-for'', ''203.0.113.7, 10.0.0.1'')],
      rqQueryStringParameters = [], rqBody = [], rqIsBase64Encoded = False,
      HTTPMethod = ''GET'', Path = ''/'', rqMultiValueHeaders = [],
      rqMultiValueQueryStringParameters = []\<rparr> = []
   \<and> (case ALB_Canonize lib \<lparr>rqHeaders = [(''x-forwarded-for'', ''203.0.113.7, 10.0.0.1'')],
      rqQueryStringParameters = [], rqBody = [], rqIsBase64Encoded = False,
      HTTPMethod = ''GET'', Path = ''/'', rqMultiValueHeaders = [],
      rqMultiValueQueryStringParameters = []\<rparr> of
        Inl e \<Rightarrow> True
      | Inr q \<Rightarrow> req_RemoteAddr q = []
          \<and> Header_Get (req_Header q) ''X-Forwarded-For'' = ''203.0.113.7, 10.0.0.1'')
   \<and> sourceIP \<lparr>rqHeaders = [],
      rqQueryStringParameters = [], rqBody = [], rqIsBase64Encoded = False,
      HTTPMethod = ''GET'', Path = ''/'',
      rqMultiValueHeaders = [(''x-forwarded-for'', [''203.0.113.7, 10.0.0.1''])],
      rqMultiValueQueryStringParameters = []\<rparr> = ''203.0.113.7''"
  (is "sourceIP ?r = [] \<and> ?canon \<and> ?multi")
proof -
  have ip: "sourceIP ?r = []"
    by (simp add: sourceIP_def)
  have hdr: "Header_Get (addHeaders (rqHeaders ?r) []) ''X-Forwarded-For''
               = ''203.0.113.7, 10.0.0.1''"
    by (simp add: Header_Add_def Header_Get_def canonical_xff canonical_XFF)
  have canon: ?canon
  proof (cases "ALB_Canonize lib ?r")
    case (Inl e)
    then show ?thesis by simp
  next
    case (Inr q)
    then show ?thesis
      using Canonize_RemoteAddr(3) [OF Inr] Canonize_Header(3) [OF Inr] ip hdr by simp
  qed
  have multi: ?multi
    by (simp add: sourceIP_def firstField_def)
  from ip canon multi show ?thesis
    by blast
qed

section \<open>Properties of classification\<close>

text \<open>
  C1, for a payload that decodes into the probe struct. The first matching marker decides:
  a non-empty target-group ARN gives the load-balancer request and prepares the
  load-balancer reply; otherwise version \<open>2.0\<close> gives gateway-v2; otherwise a non-empty
  account id gives gateway-v1; the request comes with whatever error decoding the payload
  into that envelope returned. With no marker the result is the unsupported-request error,
  no request, and the capture buffer as it was (no response prepared).
\<close>

theorem demux_selects_first_match:
  assumes "as_ambiguous p = Inr a"
  shows "(if RequestContext_ELB_TargetGroupArn a \<noteq> []
          then fst (demuxAmbiguousRequest p rw)
                 = (Some (ALBRequest (fst (as_albRequest p))), snd (as_albRequest p))
               \<and> map_option responseTag (preparedResponse (snd (demuxAmbiguousRequest p rw)))
                 = Some LoadBalancer
          else if Version a = ''2.0''
          then fst (demuxAmbiguousRequest p rw)
                 = (Some (GatewayV2Request (fst (as_apiGatewayV2Request p))),
                    snd (as_apiGatewayV2Request p))
               \<and> map_option responseTag (preparedResponse (snd (demuxAmbiguousRequest p rw)))
                 = Some GatewayV2
          else if RequestContext_AccountID a \<noteq> []
          then fst (demuxAmbiguousRequest p rw)
                 = (Some (GatewayV1Request (fst (as_apiGatewayV1Request p))),
                    snd (as_apiGatewayV1Request p))
               \<and> map_option responseTag (preparedResponse (snd (demuxAmbiguousRequest p rw)))
                 = Some GatewayV1
          else demuxAmbiguousRequest p rw = ((None, Some ErrUnsupportedRequestType), rw))"
  using assms by (simp add: demuxAmbiguousRequest_def)

theorem demux_selects_first_match_witness:
  "map_option requestTag (fst (fst (demuxAmbiguousRequest
      \<lparr>as_ambiguous = Inr \<lparr>RequestContext_ELB_TargetGroupArn = ''arn:aws:elasticloadbalancing:tg'',
                            RequestContext_AccountID = ''123456789012'', Version = ''2.0''\<rparr>,
       as_albRequest = (zero_albRequest, None),
       as_apiGatewayV2Request = (zero_apiGatewayV2Request, None),
       as_apiGatewayV1Request = (zero_apiGatewayV1Request, None)\<rparr>
      new_lambdaHTTPResponseWriter))) = Some LoadBalancer
   \<and> map_option responseTag (preparedResponse (snd (demuxAmbiguousRequest
      \<lparr>as_ambiguous = Inr \<lparr>RequestContext_ELB_TargetGroupArn = ''arn:aws:elasticloadbalancing:tg'',
                            RequestContext_AccountID = ''123456789012'', Version = ''2.0''\<rparr>,
       as_albRequest = (zero_albRequest, None),
       as_apiGatewayV2Request = (zero_apiGatewayV2Request, None),
       as_apiGatewayV1Request = (zero_apiGatewayV1Request, None)\<rparr>
      new_lambdaHTTPResponseWriter))) = Some LoadBalancer
   \<and> demuxAmbiguousRequest
      \<lparr>as_ambiguous = Inr \<lparr>RequestContext_ELB_TargetGroupArn = [],
                            RequestContext_AccountID = [], Version = ''1.0''\<rparr>,
       as_albRequest = (zero_albRequest, None),
       as_apiGatewayV2Request = (zero_apiGatewayV2Request, None),
       as_apiGatewayV1Request = (zero_apiGatewayV1Request, None)\<rparr>
      new_lambdaHTTPResponseWriter
     = ((None, Some ErrUnsupportedRequestType), new_lambdaHTTPResponseWriter)"
  using demux_selects_first_match
    [of "\<lparr>as_ambiguous = Inr \<lparr>RequestContext_ELB_TargetGroupArn = ''arn:aws:elasticloadbalancing:tg'',
                            RequestContext_AccountID = ''123456789012'', Version = ''2.0''\<rparr>,
       as_albRequest = (zero_albRequest, None),
       as_apiGatewayV2Request = (zero_apiGatewayV2Request, None),
       as_apiGatewayV1Request = (zero_apiGatewayV1Request, None)\<rparr>"
      "\<lparr>RequestContext_ELB_TargetGroupArn = ''arn:aws:elasticloadbalancing:tg'',
                            RequestContext_AccountID = ''123456789012'', Version = ''2.0''\<rparr>"
      new_lambdaHTTPResponseWriter]
    demux_selects_first_match
    [of "\<lparr>as_ambiguous = Inr \<lparr>RequestContext_ELB_TargetGroupArn = [],
                            RequestContext_AccountID = [], Version = ''1.0''\<rparr>,
       as_albRequest = (zero_albRequest, None),
       as_apiGatewayV2Request = (zero_apiGatewayV2Request, None),
       as_apiGatewayV1Request = (zero_apiGatewayV1Request, None)\<rparr>"
      "\<lparr>RequestContext_ELB_TargetGroupArn = [],
                            RequestContext_AccountID = [], Version = ''1.0''\<rparr>"
      new_lambdaHTTPResponseWriter]
  by simp

text \<open>
  C1 as stated fails on a payload the probe decoding rejects (a JSON array, say):
  the decoder's own error is returned, which is no tag and not the unsupported-request
  error.
\<close>

theorem undecodable_payload_is_not_unsupported_format:
  "demuxAmbiguousRequest
      \<lparr>as_ambiguous = Inl (LibraryError
         ''json: cannot unmarshal array into Go value of type httpbridge.ambiguousLambdaRequest''),
       as_albRequest = (zero_albRequest, Some (LibraryError
         ''json: cannot unmarshal array into Go value of type httpbridge.albRequest'')),
       as_apiGatewayV2Request = (zero_apiGatewayV2Request, Some (LibraryError
         ''json: cannot unmarshal array into Go value of type httpbridge.apiGatewayV2Request'')),
       as_apiGatewayV1Request = (zero_apiGatewayV1Request, Some (LibraryError
         ''json: cannot unmarshal array into Go value of type httpbridge.apiGatewayV1Request''))\<rparr>
      new_lambdaHTTPResponseWriter
     = ((None, Some (LibraryError
         ''json: cannot unmarshal array into Go value of type httpbridge.ambiguousLambdaRequest'')),
        new_lambdaHTTPResponseWriter)
   \<and> LibraryError
         ''json: cannot unmarshal array into Go value of type httpbridge.ambiguousLambdaRequest''
       \<noteq> ErrUnsupportedRequestType"
  by (simp add: demuxAmbiguousRequest_def)

section \<open>Properties of the orchestrator\<close>

text \<open>
  C7. \<open>json.Marshal\<close> does not fail on the fallback envelope (an int, a string and a bool).
  Then, whenever classification returns an error, or canonicalization does, or transcoding
  does after the handler has returned, the invocation returns normally with a nil error,
  and the reply is the serialized fallback envelope with status 500 and the error's
  message as body. Each stage has run once.
\<close>

theorem stage_failure_gives_fallback_500:
  assumes marshal: "\<And>f. \<exists>bytes. Marshal lib (OutFallback f) = Inr bytes"
    and demux: "demuxAmbiguousRequest req new_lambdaHTTPResponseWriter = ((dr, derr), w)"
    and failure:
      "derr = Some err
       \<or> (\<exists>r. dr = Some r \<and> derr = None \<and> Canonize lib r = Inl err)
       \<or> (\<exists>r q w'. dr = Some r \<and> derr = None \<and> Canonize lib r = Inr q
             \<and> handler w q = Return w'
             \<and> ambiguous_TranscodeFrom (StatusText lib) (Marshal lib) w' = Return (Inl err))"
  shows "\<exists>bytes. lambdaHandler lib handler req = Return (Inr bytes)
           \<and> Marshal lib (OutFallback
                 \<lparr>StatusCode = 500, Body = Error err, IsBase64Encoded = False\<rparr>) = Inr bytes"
proof -
  from marshal obtain bytes where
    bytes: "Marshal lib (OutFallback
              \<lparr>StatusCode = 500, Body = Error err, IsBase64Encoded = False\<rparr>) = Inr bytes"
    by blast
  have "lambdaHandler lib handler req = Return (errorReply lib err)"
    using demux failure
    by (auto simp: lambdaHandler_def split: option.splits)
  then show ?thesis
    using bytes by (simp add: errorReply_def)
qed

theorem stage_failure_gives_fallback_500_witness:
  "(let lib = \<lparr>PathUnescape = (\<lambda>s. if s = ''/%zz'' then Inl (LibraryError ''invalid URL escape %zz'') else Inr s),
               Values_Encode = (\<lambda>ps. []), URL_String = url_Path, URL_RequestURI = url_Path,
               NewRequest_error = (\<lambda>m u. None),
               DetectContentType = (\<lambda>d. ''text/plain; charset=utf-8''),
               StatusText = (\<lambda>c. ''OK''),
               Marshal = (\<lambda>v. case v of OutFallback f \<Rightarrow> Inr (Body f)
                                | OutPrepared p \<Rightarrow> Inl (LibraryError ''json: unsupported value''))\<rparr>;
        handler = (\<lambda>w q. Return (WriteHeader 200 w));
        v2 = (\<lambda>path. \<lparr>as_ambiguous = Inr \<lparr>RequestContext_ELB_TargetGroupArn = [],
                                RequestContext_AccountID = [], Version = ''2.0''\<rparr>,
                 as_albRequest = (zero_albRequest, None),
                 as_apiGatewayV2Request = (zero_apiGatewayV2Request\<lparr>RawPath := path\<rparr>, None),
                 as_apiGatewayV1Request = (zero_apiGatewayV1Request, None)\<rparr>);
        unmarked = \<lparr>as_ambiguous = Inr \<lparr>RequestContext_ELB_TargetGroupArn = [],
                                RequestContext_AccountID = [], Version = []\<rparr>,
                 as_albRequest = (zero_albRequest, None),
                 as_apiGatewayV2Request = (zero_apiGatewayV2Request, None),
                 as_apiGatewayV1Request = (zero_apiGatewayV1Request, None)\<rparr>
    in lambdaHandler lib handler unmarked = Return (Inr ''unsupported request type'')
       \<and> lambdaHandler lib handler (v2 ''/%zz'')
           = Return (Inr ''failed to unescape path /%zz from request: invalid URL escape %zz'')
       \<and> lambdaHandler lib handler (v2 ''/'')
           = Return (Inr ''failed to marshal response to JSON: json: unsupported value''))"
proof -
  define lib where "lib = \<lparr>PathUnescape = (\<lambda>s. if s = ''/%zz'' then Inl (LibraryError ''invalid URL escape %zz'') else Inr s),
               Values_Encode = (\<lambda>ps. []), URL_String = url_Path, URL_RequestURI = url_Path,
               NewRequest_error = (\<lambda>m u. None),
               DetectContentType = (\<lambda>d. ''text/plain; charset=utf-8''),
               StatusText = (\<lambda>c. ''OK''),
               Marshal = (\<lambda>v. case v of OutFallback f \<Rightarrow> Inr (Body f)
                                | OutPrepared p \<Rightarrow> Inl (LibraryError ''json: unsupported value''))\<rparr>"
  define handler :: "lambdaHTTPResponseWriter \<Rightarrow> Request \<Rightarrow> lambdaHTTPResponseWriter go"
    where "handler = (\<lambda>w q. Return (WriteHeader 200 w))"
  define v2 where "v2 = (\<lambda>path. \<lparr>as_ambiguous = Inr \<lparr>RequestContext_ELB_TargetGroupArn = [],
                                RequestContext_AccountID = [], Version = ''2.0''\<rparr>,
                 as_albRequest = (zero_albRequest, None),
                 as_apiGatewayV2Request = (zero_apiGatewayV2Request\<lparr>RawPath := path\<rparr>, None),
                 as_apiGatewayV1Request = (zero_apiGatewayV1Request, None)\<rparr>)"
  define unmarked where "unmarked = \<lparr>as_ambiguous = Inr \<lparr>RequestContext_ELB_TargetGroupArn = [],
                                RequestContext_AccountID = [], Version = []\<rparr>,
                 as_albRequest = (zero_albRequest, None),
                 as_apiGatewayV2Request = (zero_apiGatewayV2Request, None),
                 as_apiGatewayV1Request = (zero_apiGatewayV1Request, None)\<rparr>"
  let ?w2 = "new_lambdaHTTPResponseWriter
               \<lparr>preparedResponse := Some (GatewayV2Response zero_apiGatewayV2Response)\<rparr>"
  have m: "\<And>f. \<exists>bytes. Marshal lib (OutFallback f) = Inr bytes"
    by (simp add: lib_def)
  have d1: "demuxAmbiguousRequest unmarked new_lambdaHTTPResponseWriter
              = ((None, Some ErrUnsupportedRequestType), new_lambdaHTTPResponseWriter)"
    by (simp add: demuxAmbiguousRequest_def unmarked_def)
  have d2: "demuxAmbiguousRequest (v2 path) new_lambdaHTTPResponseWriter
              = ((Some (GatewayV2Request (zero_apiGatewayV2Request\<lparr>RawPath := path\<rparr>)), None), ?w2)"
    for path
    by (simp add: demuxAmbiguousRequest_def v2_def)
  have c2: "Canonize lib (GatewayV2Request (zero_apiGatewayV2Request\<lparr>RawPath := ''/%zz''\<rparr>))
              = Inl (Errorf ''failed to unescape path /%zz from request''
                       (LibraryError ''invalid URL escape %zz''))"
    by (simp add: V2_Canonize_def finishCanonize_def zero_apiGatewayV2Request_def lib_def)
  obtain q where c3: "Canonize lib (GatewayV2Request (zero_apiGatewayV2Request\<lparr>RawPath := ''/''\<rparr>))
              = Inr q"
    by (simp add: V2_Canonize_def finishCanonize_def zero_apiGatewayV2Request_def lib_def
        NewRequestWithContext_def bodyReader_def)
  have t3: "ambiguous_TranscodeFrom (StatusText lib) (Marshal lib) (WriteHeader 200 ?w2)
              = Return (Inl (Errorf ''failed to marshal response to JSON''
                               (LibraryError ''json: unsupported value'')))"
    by (simp add: ambiguous_TranscodeFrom_def transcodeOut_def V2_TranscodeFrom_def
        WriteHeader_def new_lambdaHTTPResponseWriter_def lib_def)
  have r1: "\<exists>bytes. lambdaHandler lib handler unmarked = Return (Inr bytes)
           \<and> Marshal lib (OutFallback
                 \<lparr>StatusCode = 500, Body = Error ErrUnsupportedRequestType,
                  IsBase64Encoded = False\<rparr>) = Inr bytes"
    by (rule stage_failure_gives_fallback_500 [OF m d1]) simp
  have r2: "\<exists>bytes. lambdaHandler lib handler (v2 ''/%zz'') = Return (Inr bytes)
           \<and> Marshal lib (OutFallback
                 \<lparr>StatusCode = 500,
                  Body = Error (Errorf ''failed to unescape path /%zz from request''
                       (LibraryError ''invalid URL escape %zz'')),
                  IsBase64Encoded = False\<rparr>) = Inr bytes"
    by (rule stage_failure_gives_fallback_500 [OF m d2]) (use c2 in simp)
  have r3: "\<exists>bytes. lambdaHandler lib handler (v2 ''/'') = Return (Inr bytes)
           \<and> Marshal lib (OutFallback
                 \<lparr>StatusCode = 500,
                  Body = Error (Errorf ''failed to marshal response to JSON''
                               (LibraryError ''json: unsupported value'')),
                  IsBase64Encoded = False\<rparr>) = Inr bytes"
    by (rule stage_failure_gives_fallback_500 [OF m d2]) (use c3 t3 in \<open>simp add: handler_def\<close>)
  from r1 r2 r3 show ?thesis
    unfolding Let_def lib_def [symmetric] handler_def [symmetric] v2_def [symmetric]
      unmarked_def [symmetric]
    by (auto simp: lib_def)
qed

section \<open>The round trip\<close>

lemma update_single_values:
  assumes "\<forall>kv \<in> set h. length (snd kv) \<le> 1"
  shows "\<forall>kv \<in> set (AList.update k [v] h). length (snd kv) \<le> 1"
  using assms by (induction h) auto

lemma header_sets_keep:
  assumes "list_all headerSet hs" and "\<forall>kv \<in> set (header w). length (snd kv) \<le> 1"
  shows "statusCode (calls detect hs w) = statusCode w
         \<and> body (calls detect hs w) = body w
         \<and> preparedResponse (calls detect hs w) = preparedResponse w
         \<and> (\<forall>kv \<in> set (header (calls detect hs w)). length (snd kv) \<le> 1)"
  using assms
proof (induction hs arbitrary: w)
  case Nil
  then show ?case by simp
next
  case (Cons c cs)
  from Cons.prems(1) obtain k v where c: "c = CallHeaderSet k v"
    by (cases c) auto
  have "\<forall>kv \<in> set (header (call detect c w)). length (snd kv) \<le> 1"
    using update_single_values [OF Cons.prems(2)] by (simp add: c Header_Set_def)
  moreover have "list_all headerSet cs"
    using Cons.prems(1) by simp
  ultimately have "statusCode (calls detect cs (call detect c w)) = statusCode (call detect c w)
         \<and> body (calls detect cs (call detect c w)) = body (call detect c w)
         \<and> preparedResponse (calls detect cs (call detect c w)) = preparedResponse (call detect c w)
         \<and> (\<forall>kv \<in> set (header (calls detect cs (call detect c w))). length (snd kv) \<le> 1)"
    using Cons.IH by blast
  then show ?case
    by (simp add: c)
qed

lemma calls_append: "calls detect (xs @ ys) w = calls detect ys (calls detect xs w)"
  by (induction xs arbitrary: w) simp_all

lemma status_then_write:
  assumes "s \<noteq> 0" and "statusCode w = 0"
  shows "statusCode (calls detect [CallWriteHeader s, CallWrite (Some b)] w) = s"
    and "body (calls detect [CallWriteHeader s, CallWrite (Some b)] w) = body w @ b"
    and "header (calls detect [CallWriteHeader s, CallWrite (Some b)] w) = header w"
    and "preparedResponse (calls detect [CallWriteHeader s, CallWrite (Some b)] w)
           = preparedResponse w"
  using assms by (simp_all add: WriteHeader_def Write_def writeHeaderLine_def)

lemma v1_range_single_values_return:
  assumes "\<forall>kv \<in> set h. length (snd kv) \<le> 1" and "Headers r \<noteq> None"
  shows "\<exists>r'. v1_range h r = Return r'"
  using assms
proof (induction h r rule: v1_range.induct)
  case (1 r)
  then show ?case by simp
next
  case (2 k v kvs r)
  then show ?case
    by (auto split: option.splits)
qed

lemma bodyBytes_encodeBody:
  assumes "\<not> IsBase64Encoded r"
  shows "bodyBytes \<lparr>StatusCode = c, Body = Body (encodeBody w r),
            IsBase64Encoded = IsBase64Encoded (encodeBody w r)\<rparr> = Some (body w)"
  using assms by (simp add: bodyBytes_def encodeBody_fields DecodeString_EncodeToString)

lemma demux_prepares:
  assumes "demuxAmbiguousRequest p new_lambdaHTTPResponseWriter = ((Some r, e), w)"
  shows "header w = [] \<and> body w = [] \<and> statusCode w = 0
         \<and> preparedResponse w =
             Some (case requestTag r of
                     LoadBalancer \<Rightarrow> ALBResponse zero_albResponse
                   | GatewayV2 \<Rightarrow> GatewayV2Response zero_apiGatewayV2Response
                   | GatewayV1 \<Rightarrow> GatewayV1Response zero_apiGatewayV1Response)"
  using assms
  by (auto simp: demuxAmbiguousRequest_def new_lambdaHTTPResponseWriter_def
      split: sum.splits if_splits)

lemma transcodeOut_round_trip:
  assumes single: "\<forall>kv \<in> set (header w). length (snd kv) \<le> 1"
    and prep: "preparedResponse w =
             Some (case t of
                     LoadBalancer \<Rightarrow> ALBResponse zero_albResponse
                   | GatewayV2 \<Rightarrow> GatewayV2Response zero_apiGatewayV2Response
                   | GatewayV1 \<Rightarrow> GatewayV1Response zero_apiGatewayV1Response)"
  shows "\<exists>env. transcodeOut statusText w = Return (Inr (OutPrepared env))
           \<and> responseTag env = t
           \<and> StatusCode (envelopeFields (OutPrepared env)) = statusCode w
           \<and> bodyBytes (envelopeFields (OutPrepared env)) = Some (body w)"
proof (cases t)
  case LoadBalancer
  let ?r0 = "zero_albResponse\<lparr>StatusCode := statusCode w,
      StatusDescription := statusText (statusCode w), Headers := Some Map.empty\<rparr>"
  have "Headers ?r0 \<noteq> None" by simp
  from v1_range_single_values_return [OF single this] obtain r' where
    run: "v1_range (header w) ?r0 = Return r'" by blast
  have keep: "StatusCode r' = statusCode w" "\<not> IsBase64Encoded r'"
    using v1_range_keeps [OF run] by (simp_all add: zero_albResponse_def)
  show ?thesis
    using run keep LoadBalancer prep bodyBytes_encodeBody [OF keep(2), of _ w]
    by (simp add: transcodeOut_def ALB_TranscodeFrom_def encodeBody_fields)
next
  case GatewayV2
  let ?r0 = "zero_apiGatewayV2Response\<lparr>StatusCode := statusCode w, Headers := Some Map.empty\<rparr>"
  have "Headers ?r0 \<noteq> None" by simp
  from v2_range_returns [OF this] obtain r' where
    run: "v2_range (header w) ?r0 = Return r'" by blast
  have keep: "StatusCode r' = statusCode w" "\<not> IsBase64Encoded r'"
    using v2_range_keeps [OF run] by (simp_all add: zero_apiGatewayV2Response_def)
  show ?thesis
    using run keep GatewayV2 prep bodyBytes_encodeBody [OF keep(2), of _ w]
    by (simp add: transcodeOut_def V2_TranscodeFrom_def encodeBody_fields)
next
  case GatewayV1
  let ?r0 = "zero_apiGatewayV1Response\<lparr>StatusCode := statusCode w, Headers := Some Map.empty\<rparr>"
  have "Headers ?r0 \<noteq> None" by simp
  from v1_range_single_values_return [OF single this] obtain r' where
    run: "v1_range (header w) ?r0 = Return r'" by blast
  have keep: "StatusCode r' = statusCode w" "\<not> IsBase64Encoded r'"
    using v1_range_keeps [OF run] by (simp_all add: zero_apiGatewayV1Response_def)
  show ?thesis
    using run keep GatewayV1 prep bodyBytes_encodeBody [OF keep(2), of _ w]
    by (simp add: transcodeOut_def V1_TranscodeFrom_def encodeBody_fields)
qed

text \<open>
  C3, for a status code other than the unset value 0. A payload is classified and
  canonicalized; the handler sets any headers it likes with \<open>Header().Set\<close>, then calls
  \<open>WriteHeader(s)\<close> and \<open>Write(b)\<close>. Transcoding the capture buffer returns the envelope of
  the request's format, its status code is \<open>s\<close>, and its body field carries exactly \<open>b\<close>
  (after base64 decoding when the binary flag is set, which happens for the octet-stream
  content type). The invocation replies with the serialization of that envelope.
\<close>

theorem round_trip_preserves_status_and_body:
  assumes "s \<noteq> 0"
    and "list_all headerSet hs"
    and "demuxAmbiguousRequest p new_lambdaHTTPResponseWriter = ((Some r, None), w)"
    and "Canonize lib r = Inr q"
  shows "\<exists>env. transcodeOut (StatusText lib)
             (calls (DetectContentType lib) (hs @ [CallWriteHeader s, CallWrite (Some b)]) w)
           = Return (Inr (OutPrepared env))
           \<and> responseTag env = requestTag r
           \<and> StatusCode (envelopeFields (OutPrepared env)) = s
           \<and> bodyBytes (envelopeFields (OutPrepared env)) = Some b
           \<and> lambdaHandler lib
                (\<lambda>w q. Return (calls (DetectContentType lib)
                                 (hs @ [CallWriteHeader s, CallWrite (Some b)]) w)) p
              = Return (case Marshal lib (OutPrepared env) of
                          Inl err \<Rightarrow> errorReply lib (Errorf ''failed to marshal response to JSON'' err)
                        | Inr bytes \<Rightarrow> Inr bytes)"
proof -
  let ?d = "DetectContentType lib"
  let ?w1 = "calls ?d hs w"
  let ?w2 = "calls ?d (hs @ [CallWriteHeader s, CallWrite (Some b)]) w"
  note w = demux_prepares [OF assms(3)]
  have "\<forall>kv \<in> set (header w). length (snd kv) \<le> 1"
    using w by simp
  note w1 = header_sets_keep [OF assms(2) this, of ?d]
  have st0: "statusCode ?w1 = 0"
    using w w1 by simp
  have w2: "statusCode ?w2 = s" "body ?w2 = b" "header ?w2 = header ?w1"
    "preparedResponse ?w2 = preparedResponse w"
    using status_then_write [OF assms(1) st0, of ?d b] w w1 by (simp_all add: calls_append)
  have single: "\<forall>kv \<in> set (header ?w2). length (snd kv) \<le> 1"
    using w1 w2 by simp
  have prep: "preparedResponse ?w2 =
             Some (case requestTag r of
                     LoadBalancer \<Rightarrow> ALBResponse zero_albResponse
                   | GatewayV2 \<Rightarrow> GatewayV2Response zero_apiGatewayV2Response
                   | GatewayV1 \<Rightarrow> GatewayV1Response zero_apiGatewayV1Response)"
    using w w2 by simp
  from transcodeOut_round_trip [OF single prep, of "StatusText lib"] obtain env where
    env: "transcodeOut (StatusText lib) ?w2 = Return (Inr (OutPrepared env))"
      "responseTag env = requestTag r"
      "StatusCode (envelopeFields (OutPrepared env)) = s"
      "bodyBytes (envelopeFields (OutPrepared env)) = Some b"
    using w2 by auto
  have "lambdaHandler lib
                (\<lambda>w q. Return (calls (DetectContentType lib)
                                 (hs @ [CallWriteHeader s, CallWrite (Some b)]) w)) p
              = Return (case Marshal lib (OutPrepared env) of
                          Inl err \<Rightarrow> errorReply lib (Errorf ''failed to marshal response to JSON'' err)
                        | Inr bytes \<Rightarrow> Inr bytes)"
    using assms(3,4) env(1)
    by (simp add: lambdaHandler_def ambiguous_TranscodeFrom_def split: sum.splits)
  with env show ?thesis
    by blast
qed

theorem round_trip_preserves_status_and_body_witness:
  "(let lib = \<lparr>PathUnescape = Inr, Values_Encode = (\<lambda>ps. []), URL_String = url_Path,
               URL_RequestURI = url_Path, NewRequest_error = (\<lambda>m u. None),
               DetectContentType = (\<lambda>d. ''text/plain; charset=utf-8''),
               StatusText = (\<lambda>c. ''Not Found''),
               Marshal = (\<lambda>v. Inr (Body (envelopeFields v)))\<rparr>;
        v2 = \<lparr>as_ambiguous = Inr \<lparr>RequestContext_ELB_TargetGroupArn = [],
                                RequestContext_AccountID = [], Version = ''2.0''\<rparr>,
              as_albRequest = (zero_albRequest, None),
              as_apiGatewayV2Request = (zero_apiGatewayV2Request\<lparr>RawPath := ''/''\<rparr>, None),
              as_apiGatewayV1Request = (zero_apiGatewayV1Request, None)\<rparr>;
        w = snd (demuxAmbiguousRequest v2 new_lambdaHTTPResponseWriter);
        handled = calls (DetectContentType lib)
                    ([CallHeaderSet ''Content-Type'' ''application/octet-stream'']
                     @ [CallWriteHeader 404, CallWrite (Some ''hi'')]) w
    in transcodeOut (StatusText lib) handled
         = Return (Inr (OutPrepared (GatewayV2Response
             \<lparr>StatusCode = 404, Body = ''aGk='', IsBase64Encoded = True,
              Headers = Some [''Content-Type'' \<mapsto> ''application/octet-stream''],
              MultiValueHeaders = None, Cookies = []\<rparr>)))
       \<and> bodyBytes \<lparr>StatusCode = 404, Body = ''aGk='', IsBase64Encoded = True\<rparr> = Some ''hi''
       \<and> lambdaHandler lib
            (\<lambda>w q. Return (calls (DetectContentType lib)
                    ([CallHeaderSet ''Content-Type'' ''application/octet-stream'']
                     @ [CallWriteHeader 404, CallWrite (Some ''hi'')]) w)) v2
           = Return (Inr ''aGk=''))"
proof -
  define lib where "lib = \<lparr>PathUnescape = Inr, Values_Encode = (\<lambda>ps. []), URL_String = url_Path,
               URL_RequestURI = url_Path, NewRequest_error = (\<lambda>m u. None),
               DetectContentType = (\<lambda>d. ''text/plain; charset=utf-8''),
               StatusText = (\<lambda>c. ''Not Found''),
               Marshal = (\<lambda>v. Inr (Body (envelopeFields v)))\<rparr>"
  define v2 where "v2 = \<lparr>as_ambiguous = Inr \<lparr>RequestContext_ELB_TargetGroupArn = [],
                                RequestContext_AccountID = [], Version = ''2.0''\<rparr>,
              as_albRequest = (zero_albRequest, None),
              as_apiGatewayV2Request = (zero_apiGatewayV2Request\<lparr>RawPath := ''/''\<rparr>, None),
              as_apiGatewayV1Request = (zero_apiGatewayV1Request, None)\<rparr>"
  let ?w = "new_lambdaHTTPResponseWriter
              \<lparr>preparedResponse := Some (GatewayV2Response zero_apiGatewayV2Response)\<rparr>"
  let ?hs = "[CallHeaderSet ''Content-Type'' ''application/octet-stream'']"
  have s: "(404::int) \<noteq> 0"
    by simp
  have hs: "list_all headerSet ?hs"
    by simp
  have d: "demuxAmbiguousRequest v2 new_lambdaHTTPResponseWriter
             = ((Some (GatewayV2Request (zero_apiGatewayV2Request\<lparr>RawPath := ''/''\<rparr>)), None), ?w)"
    by (simp add: demuxAmbiguousRequest_def v2_def)
  obtain q where c: "Canonize lib (GatewayV2Request (zero_apiGatewayV2Request\<lparr>RawPath := ''/''\<rparr>))
             = Inr q"
    by (simp add: V2_Canonize_def finishCanonize_def zero_apiGatewayV2Request_def lib_def
        NewRequestWithContext_def bodyReader_def)
  from round_trip_preserves_status_and_body [OF s hs d c, of "''hi''"] obtain env where
    env: "transcodeOut (StatusText lib)
            (calls (DetectContentType lib) (?hs @ [CallWriteHeader 404, CallWrite (Some ''hi'')]) ?w)
          = Return (Inr (OutPrepared env))"
      "StatusCode (envelopeFields (OutPrepared env)) = 404"
      "bodyBytes (envelopeFields (OutPrepared env)) = Some ''hi''"
      "lambdaHandler lib
         (\<lambda>w q. Return (calls (DetectContentType lib)
                 (?hs @ [CallWriteHeader 404, CallWrite (Some ''hi'')]) w)) v2
       = Return (case Marshal lib (OutPrepared env) of
                   Inl err \<Rightarrow> errorReply lib (Errorf ''failed to marshal response to JSON'' err)
                 | Inr bytes \<Rightarrow> Inr bytes)"
    by blast
  have t: "transcodeOut (StatusText lib)
            (calls (DetectContentType lib) (?hs @ [CallWriteHeader 404, CallWrite (Some ''hi'')]) ?w)
          = Return (Inr (OutPrepared (GatewayV2Response
             \<lparr>StatusCode = 404, Body = ''aGk='', IsBase64Encoded = True,
              Headers = Some [''Content-Type'' \<mapsto> ''application/octet-stream''],
              MultiValueHeaders = None, Cookies = []\<rparr>)))"
    by (simp add: transcodeOut_def V2_TranscodeFrom_def WriteHeader_def Write_def
        writeHeaderLine_def new_lambdaHTTPResponseWriter_def zero_apiGatewayV2Response_def
        Header_Set_def Header_Get_def encodeBody_def contentTypeHeader_eq setCookieHeader_eq
        canonical_Content_Type mimeTypeApplicationOctetStream_def enc6_def encodeStd_def)
  with env(1) have e: "env = GatewayV2Response
             \<lparr>StatusCode = 404, Body = ''aGk='', IsBase64Encoded = True,
              Headers = Some [''Content-Type'' \<mapsto> ''application/octet-stream''],
              MultiValueHeaders = None, Cookies = []\<rparr>"
    by simp
  have b: "bodyBytes \<lparr>StatusCode = 404, Body = ''aGk='', IsBase64Encoded = True\<rparr> = Some ''hi''"
    using env(3) by (simp add: e)
  have l: "lambdaHandler lib
         (\<lambda>w q. Return (calls (DetectContentType lib)
                 (?hs @ [CallWriteHeader 404, CallWrite (Some ''hi'')]) w)) v2
       = Return (Inr ''aGk='')"
    using env(4) by (simp add: e lib_def)
  from t b l d show ?thesis
    unfolding Let_def lib_def [symmetric] v2_def [symmetric]
    by simp
qed

text \<open>
  C3 as stated fails at the status code 0, on the buffer classification prepares for a
  gateway-v2 payload: \<open>WriteHeader(0)\<close> leaves the status unset, so the write that follows
  finalizes it to 200 (and sniffs a content type), and the envelope carries 200.
\<close>

theorem status_zero_is_not_preserved:
  "transcodeOut (\<lambda>c. ''OK'')
     (calls (\<lambda>d. ''text/plain; charset=utf-8'') [CallWriteHeader 0, CallWrite (Some ''hi'')]
        (new_lambdaHTTPResponseWriter
           \<lparr>preparedResponse := Some (GatewayV2Response zero_apiGatewayV2Response)\<rparr>))
   = Return (Inr (OutPrepared (GatewayV2Response
       \<lparr>StatusCode = 200, Body = ''hi'', IsBase64Encoded = False,
        Headers = Some [''Content-Type'' \<mapsto> ''text/plain; charset=utf-8''],
        MultiValueHeaders = None, Cookies = []\<rparr>)))
   \<and> (200::int) \<noteq> 0"
  by (simp add: transcodeOut_def V2_TranscodeFrom_def WriteHeader_def Write_def
      writeHeaderLine_def new_lambdaHTTPResponseWriter_def zero_apiGatewayV2Response_def
      Header_Set_def Header_Get_def encodeBody_def contentTypeHeader_eq setCookieHeader_eq
      transferEncodingHeader_eq canonical_Transfer_Encoding
      canonical_Content_Type mimeTypeApplicationOctetStream_def)

end
